theory Spec2Isabelle
  imports Main "HOL-Library.AList"
begin

section \<open>Values shared by the two managers\<close>

text \<open>
  Every failure of the source is a JavaScript \<open>Error\<close> thrown or passed to \<open>reject\<close>.
  The constructors below are named after the error kinds of the specification (section 7);
  each carries the datum that the source puts into the message.
  \<^item> \<open>NoTargetError\<close>: "No server specified and no default server configured"
  \<^item> \<open>UnknownServerError n\<close>: "Server 'n' not found in configuration"
  \<^item> \<open>ConnectionError e\<close>: the error \<open>e\<close> of the client's "error" event
  \<^item> \<open>KeyFileError e\<close>: the error \<open>e\<close> thrown by \<open>readFileSync(config.key_path)\<close>
  \<^item> \<open>CommandTimeoutError t\<close>: "Command timeout after t s"
  \<^item> \<open>ExecStartError e\<close>: the error \<open>e\<close> handed to the callback of \<open>client.exec\<close>
  \<^item> \<open>DuplicateServerError n\<close>: "Server 'n' already exists"
  \<^item> \<open>ServerNotFoundError n\<close>: "Server 'n' not found"
  \<^item> \<open>PersistenceError e\<close>: the error \<open>e\<close> thrown by \<open>fs.writeFileSync\<close>, rethrown by \<open>saveConfig\<close>
  \<^item> \<open>TypeError m\<close>: the runtime's "m is not a function"
\<close>

datatype error =
    NoTargetError
  | UnknownServerError string
  | ConnectionError string
  | KeyFileError string
  | CommandTimeoutError int
  | ExecStartError string
  | DuplicateServerError string
  | ServerNotFoundError string
  | PersistenceError string
  | TypeError string

text \<open>
  An optional string argument is \<open>undefined\<close> (\<open>None\<close>) or a string. The source tests
  such arguments by truthiness (\<open>server_name || ...\<close>, \<open>if (!name)\<close>, \<open>if (connection_id)\<close>,
  \<open>if (config.key_path)\<close>): \<open>undefined\<close> and the empty string are both falsy.
\<close>

definition truthy :: "string option \<Rightarrow> bool" where
  "truthy v = (case v of None \<Rightarrow> False | Some s \<Rightarrow> s \<noteq> [])"

text \<open>The string a truthy value holds; \<open>None\<close> for a falsy one.\<close>

definition truthy_value :: "string option \<Rightarrow> string option" where
  "truthy_value v = (if truthy v then v else None)"


section \<open>The credential store (server-config.ts)\<close>

record SSHServerConfig =
  name :: string
  host :: string
  port :: int
  username :: string
  password :: "string option"
  key_path :: "string option"
  description :: "string option"
  proxy_command :: "string option"

text \<open>The argument of \<open>addServer\<close>: an \<open>SSHServerConfig\<close> whose port is optional.\<close>

record ServerInput =
  arg_name :: string
  arg_host :: string
  arg_port :: "int option"
  arg_username :: string
  arg_password :: "string option"
  arg_key_path :: "string option"
  arg_description :: "string option"
  arg_proxy_command :: "string option"

text \<open>
  \<open>ServerConfigData\<close>: the optional default pointer and the object \<open>servers\<close>, used as a
  dictionary from names to credentials. \<open>servers\<close> is a plain object (\<open>{}\<close> or the result of
  \<open>JSON.parse\<close>). Its own properties are an association list, written with \<open>AList.update\<close>
  (assignment \<open>servers[name] = v\<close>, reached only for a name whose read finds nothing) and
  \<open>AList.delete\<close> (\<open>delete servers[name]\<close>, which removes an own property and does nothing
  else).
\<close>

record ServerConfigData =
  default_server :: "string option"
  servers :: "(string \<times> SSHServerConfig) list"

text \<open>
  Reading \<open>servers[name]\<close> finds the own property of that name and, when there is none,
  the member of that name which every plain object inherits from \<open>Object.prototype\<close>: a
  function, or for \<open>__proto__\<close> the prototype object itself. An inherited member has none
  of the fields of a credential. Whatever a read finds is an object or a function, hence
  truthy, so \<open>if (this.config.servers[name])\<close> tests whether the read finds anything.
\<close>

definition object_prototype :: "string list" where
  "object_prototype =
     [''constructor'', ''__defineGetter__'', ''__defineSetter__'', ''hasOwnProperty'',
      ''__lookupGetter__'', ''__lookupSetter__'', ''isPrototypeOf'', ''propertyIsEnumerable'',
      ''toString'', ''valueOf'', ''__proto__'', ''toLocaleString'']"

datatype property = Credential SSHServerConfig | Inherited string

text \<open>The credential stored under a name: the own property of \<open>servers\<close>, if any.\<close>

definition stored :: "string \<Rightarrow> ServerConfigData \<Rightarrow> SSHServerConfig option" where
  "stored n s = map_of (servers s) n"

text \<open>Reading a field of what \<open>servers[name]\<close> found; \<open>None\<close> is \<open>undefined\<close>.\<close>

definition field :: "(SSHServerConfig \<Rightarrow> 'a) \<Rightarrow> property \<Rightarrow> 'a option" where
  "field f p = (case p of Credential c \<Rightarrow> Some (f c) | Inherited _ \<Rightarrow> None)"

definition optional_field :: "(SSHServerConfig \<Rightarrow> 'a option) \<Rightarrow> property \<Rightarrow> 'a option" where
  "optional_field f p = (case p of Credential c \<Rightarrow> f c | Inherited _ \<Rightarrow> None)"

text \<open>\<open>loadConfig\<close> on a missing or unreadable file: \<open>{ servers: {} }\<close>.\<close>

definition empty_store :: ServerConfigData where
  "empty_store = \<lparr>default_server = None, servers = []\<rparr>"

text \<open>
  \<open>saveConfig\<close> writes the whole document with \<open>fs.writeFileSync\<close>; the catch block logs and
  rethrows. The file system is the parameter \<open>w\<close>: \<open>None\<close> when the write returns, \<open>Some e\<close>
  when it throws \<open>e\<close>.
\<close>

definition saveConfig :: "string option \<Rightarrow> error + unit" where
  "saveConfig w = (case w of None \<Rightarrow> Inr () | Some e \<Rightarrow> Inl (PersistenceError e))"

text \<open>\<open>getServer(name)\<close> returns \<open>this.config.servers[name]\<close>.\<close>

definition getServer :: "string \<Rightarrow> ServerConfigData \<Rightarrow> property option" where
  "getServer n s =
     (case map_of (servers s) n of
        Some c \<Rightarrow> Some (Credential c)
      | None \<Rightarrow> if n \<in> set object_prototype then Some (Inherited n) else None)"

definition getDefaultServer :: "ServerConfigData \<Rightarrow> string option" where
  "getDefaultServer s = default_server s"

text \<open>The object literal \<open>serverConfig\<close> of \<open>addServer\<close>; \<open>config.port || 22\<close> maps 0 to 22 too.\<close>

definition serverConfig :: "ServerInput \<Rightarrow> SSHServerConfig" where
  "serverConfig config =
     \<lparr>name = arg_name config,
      host = arg_host config,
      port = (case arg_port config of None \<Rightarrow> 22 | Some p \<Rightarrow> if p = 0 then 22 else p),
      username = arg_username config,
      password = arg_password config,
      key_path = arg_key_path config,
      description = arg_description config,
      proxy_command = arg_proxy_command config\<rparr>"

text \<open>
  Each mutating operation returns what the caller sees (\<open>Inl\<close> the thrown error, \<open>Inr\<close> the
  returned value) together with the store as the call leaves it in memory.
\<close>

definition addServer ::
  "ServerInput \<Rightarrow> string option \<Rightarrow> ServerConfigData \<Rightarrow> (error + SSHServerConfig) \<times> ServerConfigData" where
  "addServer config w s =
     (if getServer (arg_name config) s \<noteq> None
      then (Inl (DuplicateServerError (arg_name config)), s)
      else
        let s' = s\<lparr>servers := AList.update (arg_name config) (serverConfig config) (servers s)\<rparr>
        in (case saveConfig w of
              Inl e \<Rightarrow> (Inl e, s')
            | Inr _ \<Rightarrow> (Inr (serverConfig config), s')))"

definition deleteServer ::
  "string \<Rightarrow> string option \<Rightarrow> ServerConfigData \<Rightarrow> (error + bool) \<times> ServerConfigData" where
  "deleteServer n w s =
     (if getServer n s = None
      then (Inl (ServerNotFoundError n), s)
      else
        let s1 = s\<lparr>servers := AList.delete n (servers s)\<rparr>;
            s2 = (if default_server s1 = Some n then s1\<lparr>default_server := None\<rparr> else s1)
        in (case saveConfig w of
              Inl e \<Rightarrow> (Inl e, s2)
            | Inr _ \<Rightarrow> (Inr True, s2)))"

definition setDefaultServer ::
  "string \<Rightarrow> string option \<Rightarrow> ServerConfigData \<Rightarrow> (error + bool) \<times> ServerConfigData" where
  "setDefaultServer n w s =
     (if getServer n s = None
      then (Inl (ServerNotFoundError n), s)
      else
        let s' = s\<lparr>default_server := Some n\<rparr>
        in (case saveConfig w of
              Inl e \<Rightarrow> (Inl e, s')
            | Inr _ \<Rightarrow> (Inr True, s')))"

text \<open>
  A history of the store: a list of mutating calls, each paired with the outcome of its
  write. Whatever a call returns or throws, the next call runs on the store it left.
\<close>

datatype store_op = AddServer ServerInput | DeleteServer string | SetDefault string

fun apply_op :: "store_op \<times> string option \<Rightarrow> ServerConfigData \<Rightarrow> ServerConfigData" where
  "apply_op (AddServer config, w) s = snd (addServer config w s)"
| "apply_op (DeleteServer n, w) s = snd (deleteServer n w s)"
| "apply_op (SetDefault n, w) s = snd (setDefaultServer n w s)"

fun run_ops :: "(store_op \<times> string option) list \<Rightarrow> ServerConfigData \<Rightarrow> ServerConfigData" where
  "run_ops [] s = s"
| "run_ops (x # xs) s = run_ops xs (apply_op x s)"

text \<open>The invariant of the default pointer: when set, it names a stored credential.\<close>

definition default_valid :: "ServerConfigData \<Rightarrow> bool" where
  "default_valid s = (case default_server s of None \<Rightarrow> True | Some d \<Rightarrow> stored d s \<noteq> None)"


section \<open>The connection manager (ssh-connection.ts)\<close>

subsection \<open>Sessions and the registry\<close>

text \<open>
  An \<open>SSHConnection\<close>. The field \<open>id\<close> is written \<open>id'\<close>. The field \<open>client\<close> is left out:
  every session owns the one client created for it, so the effects below name a client by
  the \<open>id\<close> of its session. \<open>connected_at\<close> is the clock reading in milliseconds.
\<close>

record SSHConnection =
  id' :: string
  server_name :: string
  connected :: bool
  connected_at :: nat

text \<open>
  The runtime value of the field \<open>connections\<close>. The class in ssh-connection.ts
  initialises it with the array literal \<open>[]\<close> (line 20, under the declared type
  \<open>Map<string, SSHConnection>\<close>); the compiled module initialises it with \<open>new Map()\<close>.
  No method of the class adds an element to the array, so the array stays empty. A \<open>Map\<close>
  keeps its entries in insertion order: an association list.
\<close>

datatype registry = ArrayLiteral | MapObject "(string \<times> SSHConnection) list"

text \<open>
  The members the class uses. \<open>values()\<close> and \<open>entries()\<close> exist on arrays and on maps;
  \<open>get\<close>, \<open>set\<close> and \<open>delete\<close> are undefined on an array, so calling them throws a
  \<open>TypeError\<close>; \<open>size\<close> of an array is \<open>undefined\<close>.
\<close>

definition reg_values :: "registry \<Rightarrow> SSHConnection list" where
  "reg_values r = (case r of ArrayLiteral \<Rightarrow> [] | MapObject al \<Rightarrow> map snd al)"

definition reg_entries :: "registry \<Rightarrow> (string \<times> SSHConnection) list" where
  "reg_entries r = (case r of ArrayLiteral \<Rightarrow> [] | MapObject al \<Rightarrow> al)"

definition reg_get :: "string \<Rightarrow> registry \<Rightarrow> error + SSHConnection option" where
  "reg_get k r =
     (case r of
        ArrayLiteral \<Rightarrow> Inl (TypeError ''this.connections.get'')
      | MapObject al \<Rightarrow> Inr (map_of al k))"

definition reg_set :: "string \<Rightarrow> SSHConnection \<Rightarrow> registry \<Rightarrow> error + registry" where
  "reg_set k v r =
     (case r of
        ArrayLiteral \<Rightarrow> Inl (TypeError ''this.connections.set'')
      | MapObject al \<Rightarrow> Inr (MapObject (AList.update k v al)))"

definition reg_delete :: "string \<Rightarrow> registry \<Rightarrow> error + registry" where
  "reg_delete k r =
     (case r of
        ArrayLiteral \<Rightarrow> Inl (TypeError ''this.connections.delete'')
      | MapObject al \<Rightarrow> Inr (MapObject (AList.delete k al)))"

definition reg_size :: "registry \<Rightarrow> nat option" where
  "reg_size r = (case r of ArrayLiteral \<Rightarrow> None | MapObject al \<Rightarrow> Some (length al))"

text \<open>
  The manager. The credential store it points to (\<open>configManager\<close>) is shared with the
  dispatcher and changes under it, so every operation takes the store's current state as
  an argument.
\<close>

record SSHConnectionManager =
  connections :: registry
  connectionCounter :: nat

text \<open>The constructor as written in ssh-connection.ts, and as compiled.\<close>

definition new_manager_ts :: SSHConnectionManager where
  "new_manager_ts = \<lparr>connections = ArrayLiteral, connectionCounter = 0\<rparr>"

definition new_manager_js :: SSHConnectionManager where
  "new_manager_js = \<lparr>connections = MapObject [], connectionCounter = 0\<rparr>"

subsection \<open>Outcomes and effects\<close>

text \<open>
  The outcome of a promise: resolved with a value, rejected with an error, or never
  settled. What an operation does to the outside world is returned as a list of effects,
  in order.
\<close>

datatype 'a outcome = Resolved 'a | Rejected error | Pending

text \<open>
  The object passed to \<open>client.connect\<close>. \<open>host\<close>, \<open>port\<close> and \<open>username\<close> are read from
  what \<open>getServer\<close> returned and are \<open>undefined\<close> (\<open>None\<close>) when that is an inherited member.
\<close>

record connectConfig =
  cc_host :: "string option"
  cc_port :: "int option"
  cc_username :: "string option"
  cc_readyTimeout :: nat
  cc_privateKey :: "string option"
  cc_password :: "string option"

datatype effect =
    ClientConnect string connectConfig
  | ClientEnd string
  | ClientExec string string
  | SetTimeout nat
  | ClearTimeout
  | TimerFired
  | Uncaught error

subsection \<open>connect\<close>

text \<open>Decimal rendering of a number inside a template literal.\<close>

fun string_of_nat :: "nat \<Rightarrow> string" where
  "string_of_nat n =
     (if n < 10 then [''0123456789'' ! n]
      else string_of_nat (n div 10) @ [''0123456789'' ! (n mod 10)])"

declare string_of_nat.simps [simp del]

text \<open>\<open>generateConnectionId\<close>: the id and the manager with its counter incremented.\<close>

definition generateConnectionId :: "nat \<Rightarrow> SSHConnectionManager \<Rightarrow> string \<times> SSHConnectionManager" where
  "generateConnectionId clock m =
     (''conn_'' @ string_of_nat clock @ ''_'' @ string_of_nat (connectionCounter m),
      m\<lparr>connectionCounter := connectionCounter m + 1\<rparr>)"

text \<open>
  What the outside world does during one \<open>connect\<close>: the clock reading \<open>Date.now()\<close>, the
  result of \<open>readFileSync\<close> on a path (\<open>Inl\<close> the error it throws), and the event the client
  emits after \<open>client.connect\<close> (\<open>TransportError\<close> also stands for \<open>client.connect\<close>
  throwing: both end in \<open>reject(err)\<close>; the client's own 30 s \<open>readyTimeout\<close> makes one of
  the two events happen).
\<close>

datatype transport_event = Ready | TransportError string

record connect_env =
  now :: nat
  readFileSync :: "string \<Rightarrow> string + string"
  transport :: transport_event

text \<open>
  The body of the promise of \<open>connect\<close>, run when no session can be reused. A throw inside
  the executor (\<open>readFileSync\<close>) rejects the promise. A throw inside the "ready" handler
  (\<open>this.connections.set\<close> on an array) leaves the promise unsettled and escapes to the
  emitter. Console output is not modelled; the branch on \<open>config.proxy_command\<close> only logs.
\<close>

definition establish ::
  "connect_env \<Rightarrow> string \<Rightarrow> property \<Rightarrow> SSHConnectionManager
     \<Rightarrow> SSHConnection outcome \<times> SSHConnectionManager \<times> effect list" where
  "establish env n config m =
     (case generateConnectionId (now env) m of (connectionId, m1) \<Rightarrow>
      let connection =
            \<lparr>id' = connectionId, server_name = n, connected = False, connected_at = now env\<rparr>;
          base = \<lparr>cc_host = field host config, cc_port = field port config,
                  cc_username = field username config,
                  cc_readyTimeout = 30000, cc_privateKey = None, cc_password = None\<rparr>;
          auth =
            (case truthy_value (optional_field key_path config) of
               Some path \<Rightarrow>
                 (case readFileSync env path of
                    Inl e \<Rightarrow> Inl (KeyFileError e)
                  | Inr key \<Rightarrow> Inr (base\<lparr>cc_privateKey := Some key\<rparr>))
             | None \<Rightarrow>
                 if truthy (optional_field password config)
                 then Inr (base\<lparr>cc_password := optional_field password config\<rparr>)
                 else Inr base)
      in (case auth of
            Inl e \<Rightarrow> (Rejected e, m1, [])
          | Inr connectConfig \<Rightarrow>
              (case transport env of
                 TransportError e \<Rightarrow>
                   (Rejected (ConnectionError e), m1, [ClientConnect connectionId connectConfig])
               | Ready \<Rightarrow>
                   (let connection' = connection\<lparr>connected := True\<rparr>
                    in case reg_set connectionId connection' (connections m1) of
                         Inl e \<Rightarrow>
                           (Pending, m1, [ClientConnect connectionId connectConfig, Uncaught e])
                       | Inr r \<Rightarrow>
                           (Resolved connection', m1\<lparr>connections := r\<rparr>,
                            [ClientConnect connectionId connectConfig])))))"

text \<open>
  \<open>connect(server_name?)\<close>: resolve the name, look the credentials up, scan the registry
  for a live session of that name, else establish one.
\<close>

definition connect ::
  "ServerConfigData \<Rightarrow> connect_env \<Rightarrow> string option \<Rightarrow> SSHConnectionManager
     \<Rightarrow> SSHConnection outcome \<times> SSHConnectionManager \<times> effect list" where
  "connect cfg env server_name_arg m =
     (let nm = (if truthy server_name_arg then server_name_arg else getDefaultServer cfg)
      in case truthy_value nm of
           None \<Rightarrow> (Rejected NoTargetError, m, [])
         | Some n \<Rightarrow>
             (case getServer n cfg of
                None \<Rightarrow> (Rejected (UnknownServerError n), m, [])
              | Some config \<Rightarrow>
                  (case find (\<lambda>conn. server_name conn = n \<and> connected conn)
                          (reg_values (connections m)) of
                     Some conn \<Rightarrow> (Resolved conn, m, [])
                   | None \<Rightarrow> establish env n config m)))"

subsection \<open>disconnect, getStatus, getConnection\<close>

text \<open>
  The loop of "Disconnect all" over \<open>this.connections.entries()\<close>. The iterator of a
  \<open>Map\<close> is live, and the body deletes only the entry just visited, so the loop visits
  the entries the map held when it started, in order.
\<close>

fun disconnect_loop ::
  "(string \<times> SSHConnection) list \<Rightarrow> registry \<Rightarrow> nat \<Rightarrow> effect list
     \<Rightarrow> (error + nat) \<times> registry \<times> effect list" where
  "disconnect_loop [] r count fx = (Inr count, r, fx)"
| "disconnect_loop ((i, conn) # rest) r count fx =
     (case reg_delete i r of
        Inl e \<Rightarrow> (Inl e, r, fx @ [ClientEnd (id' conn)])
      | Inr r' \<Rightarrow> disconnect_loop rest r' (count + 1) (fx @ [ClientEnd (id' conn)]))"

definition disconnect ::
  "string option \<Rightarrow> SSHConnectionManager \<Rightarrow> (error + nat) \<times> SSHConnectionManager \<times> effect list" where
  "disconnect connection_id m =
     (case truthy_value connection_id of
        Some i \<Rightarrow>
          (case reg_get i (connections m) of
             Inl e \<Rightarrow> (Inl e, m, [])
           | Inr None \<Rightarrow> (Inr 0, m, [])
           | Inr (Some conn) \<Rightarrow>
               (case reg_delete i (connections m) of
                  Inl e \<Rightarrow> (Inl e, m, [ClientEnd (id' conn)])
                | Inr r \<Rightarrow> (Inr 1, m\<lparr>connections := r\<rparr>, [ClientEnd (id' conn)])))
      | None \<Rightarrow>
          (case disconnect_loop (reg_entries (connections m)) (connections m) 0 [] of
             (res, r, fx) \<Rightarrow> (res, m\<lparr>connections := r\<rparr>, fx)))"

record status =
  status_connections :: "SSHConnection list"
  total :: "nat option"

definition getStatus :: "SSHConnectionManager \<Rightarrow> status" where
  "getStatus m =
     \<lparr>status_connections = reg_values (connections m), total = reg_size (connections m)\<rparr>"

definition getConnection :: "string \<Rightarrow> SSHConnectionManager \<Rightarrow> SSHConnection option" where
  "getConnection n m =
     find (\<lambda>conn. server_name conn = n \<and> connected conn) (reg_values (connections m))"


subsection \<open>executeCommand\<close>

record CommandResult =
  stdout :: string
  stderr :: string
  exit_code :: "int option"
  duration :: nat

text \<open>
  What the session's client does after \<open>client.exec(command, callback)\<close>: the callback
  with or without an error, data on the two streams, the "close" event with its code
  (\<open>None\<close> when no code is delivered).
\<close>

datatype stream_event =
    ExecCallback "string option"
  | StdoutData string
  | StderrData string
  | Close "int option"

text \<open>
  The outside world during one \<open>executeCommand\<close>: that of the \<open>connect\<close> it awaits, the
  time in milliseconds this \<open>connect\<close> takes, whether \<open>client.exec\<close> itself throws, and the
  events the client then dispatches, in order of dispatch, each stamped with the
  milliseconds elapsed since \<open>client.exec\<close> was called (the statement before it is the
  \<open>setTimeout\<close>, so the timer is armed at offset 0). The event loop decides which callback
  runs first when the timer falls due at the very offset of an event:
  \<open>timer_first_on_tie\<close>.
\<close>

record exec_env =
  conn_env :: connect_env
  connect_ms :: nat
  exec_throws :: "string option"
  events :: "(nat \<times> stream_event) list"
  timer_first_on_tie :: bool

text \<open>
  The variables the callbacks of \<open>executeCommand\<close> close over, the state of the timer and
  of the returned promise, and the effects so far. \<open>timer_var\<close> says that the variable
  \<open>timer\<close> holds a handle, \<open>timer_pending\<close> that the timeout is scheduled and has neither
  run nor been cleared; \<open>listening\<close> that the "data" and "close" handlers are attached.
\<close>

record exec_state =
  stdout_var :: string
  stderr_var :: string
  exit_code_var :: "int option"
  timer_var :: bool
  timer_pending :: bool
  listening :: bool
  settled :: "CommandResult outcome"
  trace :: "effect list"

text \<open>\<open>resolve\<close> and \<open>reject\<close> settle a promise once; later calls do nothing.\<close>

definition settle :: "CommandResult outcome \<Rightarrow> exec_state \<Rightarrow> exec_state" where
  "settle out st = (if settled st = Pending then st\<lparr>settled := out\<rparr> else st)"

definition cleanup :: "exec_state \<Rightarrow> exec_state" where
  "cleanup st =
     (if timer_var st then st\<lparr>timer_pending := False, trace := trace st @ [ClearTimeout]\<rparr> else st)"

text \<open>The callback of \<open>setTimeout\<close>.\<close>

definition on_timer :: "int \<Rightarrow> exec_state \<Rightarrow> exec_state" where
  "on_timer timeout st =
     settle (Rejected (CommandTimeoutError timeout))
       (cleanup (st\<lparr>timer_pending := False, trace := trace st @ [TimerFired]\<rparr>))"

text \<open>
  The callback of \<open>client.exec\<close> and the handlers it attaches; \<open>clock\<close> is \<open>Date.now()\<close> when
  the event is dispatched.
\<close>

fun on_event :: "nat \<Rightarrow> nat \<Rightarrow> stream_event \<Rightarrow> exec_state \<Rightarrow> exec_state" where
  "on_event startTime clock (ExecCallback (Some err)) st =
     settle (Rejected (ExecStartError err)) (cleanup st)"
| "on_event startTime clock (ExecCallback None) st = st\<lparr>listening := True\<rparr>"
| "on_event startTime clock (StdoutData d) st =
     (if listening st then st\<lparr>stdout_var := stdout_var st @ d\<rparr> else st)"
| "on_event startTime clock (StderrData d) st =
     (if listening st then st\<lparr>stderr_var := stderr_var st @ d\<rparr> else st)"
| "on_event startTime clock (Close code) st =
     (if listening st then
        (let st1 = (cleanup st)\<lparr>exit_code_var := code\<rparr>
         in settle (Resolved \<lparr>stdout = stdout_var st1, stderr = stderr_var st1,
                              exit_code = exit_code_var st1, duration = clock - startTime\<rparr>) st1)
      else st)"

text \<open>
  The delay \<open>timeout * 1000\<close> as the runtime takes it: a delay above \<open>2^31 - 1\<close> is set to 1.
\<close>

definition timer_delay :: "int \<Rightarrow> nat" where
  "timer_delay timeout = (if timeout * 1000 > 2147483647 then 1 else nat (timeout * 1000))"

definition timer_due :: "bool \<Rightarrow> nat \<Rightarrow> nat \<Rightarrow> bool" where
  "timer_due tie d t = (d < t \<or> (d = t \<and> tie))"

text \<open>
  The event loop: before an event is dispatched, a pending timer that is due runs; a
  timer still pending when the client has nothing more to dispatch runs in the end.
  \<open>issued\<close> is the clock reading when \<open>client.exec\<close> was called.
\<close>

fun run_events ::
  "int \<Rightarrow> bool \<Rightarrow> nat \<Rightarrow> nat \<Rightarrow> (nat \<times> stream_event) list \<Rightarrow> exec_state \<Rightarrow> exec_state" where
  "run_events timeout tie startTime issued [] st =
     (if timer_pending st then on_timer timeout st else st)"
| "run_events timeout tie startTime issued ((t, e) # es) st =
     (let st1 = (if timer_pending st \<and> timer_due tie (timer_delay timeout) t
                 then on_timer timeout st else st)
      in run_events timeout tie startTime issued es (on_event startTime (issued + t) e st1))"

text \<open>
  \<open>executeCommand(server_name, command, timeout = 30)\<close>, the timeout a whole number of
  seconds. A rejected \<open>connect\<close> is rethrown
  by the \<open>await\<close>; a \<open>connect\<close> that never settles leaves the call waiting. When
  \<open>client.exec\<close> throws inside the executor the promise is rejected and a timer already
  armed is left to run.
\<close>

definition executeCommand ::
  "ServerConfigData \<Rightarrow> exec_env \<Rightarrow> string option \<Rightarrow> string \<Rightarrow> int option \<Rightarrow> SSHConnectionManager
     \<Rightarrow> CommandResult outcome \<times> SSHConnectionManager \<times> effect list" where
  "executeCommand cfg env server_name_arg command timeout_arg m =
     (let timeout = (case timeout_arg of None \<Rightarrow> 30 | Some t \<Rightarrow> t);
          startTime = now (conn_env env)
      in case connect cfg (conn_env env) server_name_arg m of
           (Rejected e, m1, fx) \<Rightarrow> (Rejected e, m1, fx)
         | (Pending, m1, fx) \<Rightarrow> (Pending, m1, fx)
         | (Resolved connection, m1, fx) \<Rightarrow>
             (let st0 = \<lparr>stdout_var = [], stderr_var = [], exit_code_var = None,
                         timer_var = (timeout > 0), timer_pending = (timeout > 0),
                         listening = False, settled = Pending,
                         trace = fx @ (if timeout > 0 then [SetTimeout (timer_delay timeout)] else [])
                                    @ [ClientExec (id' connection) command]\<rparr>
              in case exec_throws env of
                   Some e \<Rightarrow>
                     (Rejected (ExecStartError e), m1,
                      trace st0 @ (if timeout > 0 then [TimerFired, ClearTimeout] else []))
                 | None \<Rightarrow>
                     (let st = run_events timeout (timer_first_on_tie env) startTime
                                 (startTime + connect_ms env) (events env) st0
                      in (settled st, m1, trace st))))"


subsection \<open>Auxiliary notions for the proofs\<close>

text \<open>
  The timer and the promise: a pending timer has a handle; while the promise is pending
  the timer has not run; once the promise is resolved the timer is no longer pending, has
  never run, and (if there was one) has been cleared.
\<close>

definition timer_inv :: "exec_state \<Rightarrow> bool" where
  "timer_inv st =
     ((timer_pending st \<longrightarrow> timer_var st)
      \<and> (settled st = Pending \<longrightarrow> TimerFired \<notin> set (trace st))
      \<and> (\<forall>r. settled st = Resolved r \<longrightarrow>
            \<not> timer_pending st \<and> TimerFired \<notin> set (trace st)
            \<and> (timer_var st \<longrightarrow> ClearTimeout \<in> set (trace st))))"

text \<open>A result's duration is at least the time \<open>connect\<close> took.\<close>

definition duration_inv :: "nat \<Rightarrow> exec_state \<Rightarrow> bool" where
  "duration_inv c st = (case settled st of Resolved r \<Rightarrow> c \<le> duration r | _ \<Rightarrow> True)"

text \<open>An outcome, and a state, with the duration of a result set to 0.\<close>

definition without_duration :: "CommandResult outcome \<Rightarrow> CommandResult outcome" where
  "without_duration out = (case out of Resolved r \<Rightarrow> Resolved (r\<lparr>duration := 0\<rparr>) | _ \<Rightarrow> out)"

definition erase_duration :: "exec_state \<Rightarrow> exec_state" where
  "erase_duration st = st\<lparr>settled := without_duration (settled st)\<rparr>"


section \<open>Sample data\<close>

text \<open>
  The scenario of the specification: server "a" (host 1.2.3.4, user root, password p),
  added to the empty store and made the default; and a second server "b".
\<close>

definition cred_a :: ServerInput where
  "cred_a = \<lparr>arg_name = ''a'', arg_host = ''1.2.3.4'', arg_port = None, arg_username = ''root'',
     arg_password = Some ''p'', arg_key_path = None, arg_description = None, arg_proxy_command = None\<rparr>"

definition cred_b :: ServerInput where
  "cred_b = \<lparr>arg_name = ''b'', arg_host = ''example.com'', arg_port = Some 2222,
     arg_username = ''user'', arg_password = None, arg_key_path = Some ''/home/user/.ssh/id'',
     arg_description = Some ''second'', arg_proxy_command = None\<rparr>"

definition store_a :: ServerConfigData where
  "store_a = run_ops [(AddServer cred_a, None), (SetDefault ''a'', None)] empty_store"

definition store_ab :: ServerConfigData where
  "store_ab = snd (addServer cred_b None store_a)"

text \<open>
  A transport that becomes ready, and one that is refused; the session and the manager
  that the compiled module has after connecting to "a" at clock 1000.
\<close>

definition env_ready :: connect_env where
  "env_ready = \<lparr>now = 1000, readFileSync = (\<lambda>p. Inl ''ENOENT''), transport = Ready\<rparr>"

definition env_down :: connect_env where
  "env_down = \<lparr>now = 2000, readFileSync = (\<lambda>p. Inl ''ENOENT''), transport = TransportError ''ECONNREFUSED''\<rparr>"

definition config_a :: connectConfig where
  "config_a = \<lparr>cc_host = Some ''1.2.3.4'', cc_port = Some 22, cc_username = Some ''root'',
     cc_readyTimeout = 30000, cc_privateKey = None, cc_password = Some ''p''\<rparr>"

text \<open>What \<open>client.connect\<close> is given when the name is an inherited member.\<close>

definition config_inherited :: connectConfig where
  "config_inherited = \<lparr>cc_host = None, cc_port = None, cc_username = None,
     cc_readyTimeout = 30000, cc_privateKey = None, cc_password = None\<rparr>"

definition session_a :: SSHConnection where
  "session_a = \<lparr>id' = ''conn_1000_0'', server_name = ''a'', connected = True, connected_at = 1000\<rparr>"

definition manager_a :: SSHConnectionManager where
  "manager_a = \<lparr>connections = MapObject [(''conn_1000_0'', session_a)], connectionCounter = 1\<rparr>"

text \<open>
  Three remote runs: connecting takes 5 s and the command closes 1 s after it was
  issued; the command closes after 7 s; the command closes after 40 ms.
\<close>

definition env_slow_connect :: exec_env where
  "env_slow_connect =
     \<lparr>conn_env = env_ready, connect_ms = 5000, exec_throws = None,
      events = [(0, ExecCallback None), (400, StdoutData ''up''), (1000, Close (Some 0))],
      timer_first_on_tie = False\<rparr>"

definition env_hang :: exec_env where
  "env_hang =
     \<lparr>conn_env = env_ready, connect_ms = 20, exec_throws = None,
      events = [(5, ExecCallback None), (400, StdoutData ''up''), (7000, Close (Some 0))],
      timer_first_on_tie = False\<rparr>"

definition env_quick :: exec_env where
  "env_quick =
     \<lparr>conn_env = env_ready, connect_ms = 20, exec_throws = None,
      events = [(2, ExecCallback None), (40, Close (Some 0))],
      timer_first_on_tie = False\<rparr>"


section \<open>Properties of the credential store\<close>

lemma getServer_update:
  "getServer k (s\<lparr>servers := AList.update n v (servers s)\<rparr>)
   = (if k = n then Some (Credential v) else getServer k s)"
  by (simp add: getServer_def update_conv')

lemma stored_update:
  "stored k (s\<lparr>servers := AList.update n v (servers s)\<rparr>) = (if k = n then Some v else stored k s)"
  by (simp add: stored_def update_conv')

lemma stored_delete:
  "stored k (s\<lparr>servers := AList.delete n (servers s)\<rparr>) = (if k = n then None else stored k s)"
  by (simp add: stored_def delete_conv')

lemma getServer_delete:
  "n \<notin> set object_prototype
   \<Longrightarrow> getServer k (s\<lparr>servers := AList.delete n (servers s)\<rparr>)
       = (if k = n then None else getServer k s)"
  by (simp add: getServer_def delete_conv')

lemma getServer_default_update [simp]:
  "getServer k (s\<lparr>default_server := d\<rparr>) = getServer k s"
  by (simp add: getServer_def)

lemma stored_default_update [simp]:
  "stored k (s\<lparr>default_server := d\<rparr>) = stored k s"
  by (simp add: stored_def)

text \<open>A read that finds something finds the stored credential, or an inherited member.\<close>

lemma getServer_None: "getServer n s = None \<longleftrightarrow> stored n s = None \<and> n \<notin> set object_prototype"
  by (simp add: getServer_def stored_def split: option.splits)

lemma getServer_ordinary:
  "n \<notin> set object_prototype \<Longrightarrow> getServer n s = map_option Credential (stored n s)"
  by (simp add: getServer_def stored_def split: option.splits)

text \<open>
  The invariant of the default pointer is kept by \<open>addServer\<close> and \<open>deleteServer\<close>, and by
  \<open>setDefaultServer\<close> on a name that is not a member of \<open>Object.prototype\<close>.
\<close>

lemma addServer_valid: "default_valid s \<Longrightarrow> default_valid (snd (addServer config w s))"
  by (auto simp: addServer_def default_valid_def stored_update Let_def
           split: option.splits sum.splits)

lemma deleteServer_valid: "default_valid s \<Longrightarrow> default_valid (snd (deleteServer n w s))"
  by (auto simp: deleteServer_def default_valid_def stored_delete Let_def
           split: option.splits sum.splits)

lemma setDefaultServer_valid:
  "n \<notin> set object_prototype \<Longrightarrow> default_valid s
   \<Longrightarrow> default_valid (snd (setDefaultServer n w s))"
  by (auto simp: setDefaultServer_def default_valid_def getServer_None Let_def
           split: option.splits sum.splits)

lemma run_ops_valid:
  "\<forall>n w. (SetDefault n, w) \<in> set xs \<longrightarrow> n \<notin> set object_prototype
   \<Longrightarrow> default_valid s \<Longrightarrow> default_valid (run_ops xs s)"
proof (induction xs arbitrary: s)
  case Nil
  then show ?case by simp
next
  case (Cons x xs)
  obtain operation w where x: "x = (operation, w)" by (cases x)
  have "default_valid (apply_op x s)"
  proof (cases operation)
    case (AddServer config)
    with x Cons.prems(2) show ?thesis by (simp add: addServer_valid)
  next
    case (DeleteServer n)
    with x Cons.prems(2) show ?thesis by (simp add: deleteServer_valid)
  next
    case (SetDefault n)
    with x Cons.prems(1) have "n \<notin> set object_prototype" by auto
    with x SetDefault Cons.prems(2) show ?thesis by (simp add: setDefaultServer_valid)
  qed
  moreover from Cons.prems(1)
  have "\<forall>n w. (SetDefault n, w) \<in> set xs \<longrightarrow> n \<notin> set object_prototype" by auto
  ultimately show ?case using Cons.IH by simp
qed

lemma empty_store_valid: "default_valid empty_store"
  by (simp add: default_valid_def empty_store_def stored_def)

text \<open>
  The default pointer, for names that are not members of \<open>Object.prototype\<close>: the
  invariant holds along every history from the empty store; \<open>setDefaultServer\<close> on a name
  without credential fails and changes nothing; deleting the default clears the pointer,
  deleting another credential leaves it.
\<close>

lemma default_pointer_ordinary_names:
  "(\<forall>n w. (SetDefault n, w) \<in> set xs \<longrightarrow> n \<notin> set object_prototype)
     \<Longrightarrow> default_valid (run_ops xs empty_store)"
  "stored n s = None \<Longrightarrow> n \<notin> set object_prototype
     \<Longrightarrow> setDefaultServer n w s = (Inl (ServerNotFoundError n), s)"
  "getServer n s \<noteq> None \<Longrightarrow> default_server s = Some n
     \<Longrightarrow> default_server (snd (deleteServer n w s)) = None"
  "getServer n s \<noteq> None \<Longrightarrow> default_server s \<noteq> Some n
     \<Longrightarrow> default_server (snd (deleteServer n w s)) = default_server s"
proof -
  show "(\<forall>n w. (SetDefault n, w) \<in> set xs \<longrightarrow> n \<notin> set object_prototype)
     \<Longrightarrow> default_valid (run_ops xs empty_store)"
    by (rule run_ops_valid [OF _ empty_store_valid])
  show "stored n s = None \<Longrightarrow> n \<notin> set object_prototype
     \<Longrightarrow> setDefaultServer n w s = (Inl (ServerNotFoundError n), s)"
    by (simp add: setDefaultServer_def getServer_None)
  show "getServer n s \<noteq> None \<Longrightarrow> default_server s = Some n
     \<Longrightarrow> default_server (snd (deleteServer n w s)) = None"
    by (simp add: deleteServer_def Let_def split: sum.splits)
  show "getServer n s \<noteq> None \<Longrightarrow> default_server s \<noteq> Some n
     \<Longrightarrow> default_server (snd (deleteServer n w s)) = default_server s"
    by (simp add: deleteServer_def Let_def split: sum.splits)
qed


section \<open>Properties of the connection manager\<close>

subsection \<open>connect\<close>

lemma find_update_new:
  "find P (map snd al) = None \<Longrightarrow> P v \<Longrightarrow> find P (map snd (AList.update k v al)) = Some v"
  by (induction al) (auto split: if_splits)

text \<open>A new session is resolved only on a map, where it is registered under its id.\<close>

lemma establish_Resolved:
  assumes "establish env n config m = (Resolved c, m1, fx)"
  shows "\<exists>al. connections m = MapObject al
           \<and> connections m1 = MapObject (AList.update (id' c) c al)
           \<and> server_name c = n \<and> connected c"
  using assms
  by (auto simp: establish_def generateConnectionId_def reg_set_def Let_def
           split: prod.splits sum.splits transport_event.splits registry.splits option.splits if_splits)

text \<open>An attempt that does not resolve leaves the registry as it was.\<close>

lemma establish_registry:
  "establish env n config m = (out, m1, fx) \<Longrightarrow> (\<forall>c. out \<noteq> Resolved c) \<Longrightarrow> connections m1 = connections m"
  by (auto simp: establish_def generateConnectionId_def Let_def
           split: prod.splits sum.splits transport_event.splits option.splits if_splits)

subsection \<open>The promise and the timer of executeCommand\<close>

lemma settle_simps:
  "timer_pending (settle out st) = timer_pending st"
  "timer_var (settle out st) = timer_var st"
  "trace (settle out st) = trace st"
  "listening (settle out st) = listening st"
  by (simp_all add: settle_def)

lemma settled_settle:
  "settled (settle out st) = (if settled st = Pending then out else settled st)"
  by (simp add: settle_def)

lemma cleanup_simps:
  "settled (cleanup st) = settled st"
  "timer_var (cleanup st) = timer_var st"
  "listening (cleanup st) = listening st"
  "timer_pending (cleanup st) = (timer_pending st \<and> \<not> timer_var st)"
  "trace (cleanup st) = trace st @ (if timer_var st then [ClearTimeout] else [])"
  by (simp_all add: cleanup_def)

text \<open>Once settled, always settled with the same outcome.\<close>

lemma on_timer_settled: "settled st \<noteq> Pending \<Longrightarrow> settled (on_timer T st) = settled st"
  by (simp add: on_timer_def settled_settle cleanup_simps)

lemma on_event_settled: "settled st \<noteq> Pending \<Longrightarrow> settled (on_event s c e st) = settled st"
  by (cases "(s, c, e, st)" rule: on_event.cases) (simp_all add: settled_settle cleanup_simps Let_def)

lemma run_events_settled:
  "settled st \<noteq> Pending \<Longrightarrow> settled (run_events T tie s i es st) = settled st"
  by (induction es arbitrary: st) (auto simp: on_timer_settled on_event_settled Let_def)

lemma on_timer_Pending:
  "settled st = Pending \<Longrightarrow> settled (on_timer T st) = Rejected (CommandTimeoutError T)"
  by (simp add: on_timer_def settled_settle cleanup_simps)

text \<open>The timer wins: no completion and no start failure before it is due.\<close>

lemma run_events_timeout:
  assumes "settled st = Pending" "timer_pending st"
    and "\<forall>(t, e) \<in> set es. (\<exists>code. e = Close code) \<or> (\<exists>err. e = ExecCallback (Some err))
            \<longrightarrow> timer_due tie (timer_delay T) t"
  shows "settled (run_events T tie s i es st) = Rejected (CommandTimeoutError T)"
  using assms
proof (induction es arbitrary: st)
  case Nil
  then show ?case by (simp add: on_timer_Pending)
next
  case (Cons x es)
  obtain t e where x: "x = (t, e)" by (cases x)
  show ?case
  proof (cases "timer_due tie (timer_delay T) t")
    case True
    have "settled (on_event s (i + t) e (on_timer T st)) = Rejected (CommandTimeoutError T)"
      using Cons.prems(1) by (simp add: on_event_settled on_timer_Pending)
    then show ?thesis
      using True Cons.prems(2) x by (simp add: run_events_settled)
  next
    case False
    with Cons.prems(3) x have ne: "\<forall>code. e \<noteq> Close code" "\<forall>err. e \<noteq> ExecCallback (Some err)"
      by auto
    from ne Cons.prems(1,2) have "settled (on_event s (i + t) e st) = Pending \<and> timer_pending (on_event s (i + t) e st)"
      by (cases "(s, i + t, e, st)" rule: on_event.cases) simp_all
    moreover from Cons.prems(3) have "\<forall>(t, e) \<in> set es. (\<exists>code. e = Close code) \<or> (\<exists>err. e = ExecCallback (Some err))
            \<longrightarrow> timer_due tie (timer_delay T) t" by simp
    ultimately show ?thesis
      using False x Cons.IH by simp
  qed
qed

lemma timer_delay_due: "0 < T \<Longrightarrow> T * 1000 < int t \<Longrightarrow> timer_due tie (timer_delay T) t"
  by (auto simp: timer_due_def timer_delay_def)

text \<open>Without a timer there is no timeout.\<close>

lemma on_event_no_timer:
  "\<not> timer_pending st \<Longrightarrow> \<not> timer_pending (on_event s c e st)"
  by (cases "(s, c, e, st)" rule: on_event.cases) (simp_all add: settle_simps cleanup_simps Let_def)

lemma on_event_not_timeout:
  "settled st \<noteq> Rejected (CommandTimeoutError k)
   \<Longrightarrow> settled (on_event s c e st) \<noteq> Rejected (CommandTimeoutError k)"
  by (cases "(s, c, e, st)" rule: on_event.cases) (simp_all add: settled_settle cleanup_simps Let_def)

lemma run_events_no_timer:
  "\<not> timer_pending st \<Longrightarrow> settled st \<noteq> Rejected (CommandTimeoutError k)
   \<Longrightarrow> settled (run_events T tie s i es st) \<noteq> Rejected (CommandTimeoutError k)"
  by (induction es arbitrary: st) (auto simp: on_event_no_timer on_event_not_timeout Let_def)

lemma establish_not_timeout:
  "fst (establish env n config m) \<noteq> Rejected (CommandTimeoutError k)"
  by (auto simp: establish_def generateConnectionId_def Let_def
           split: prod.splits sum.splits transport_event.splits option.splits if_splits)

lemma connect_not_timeout:
  "fst (connect cfg env tgt m) \<noteq> Rejected (CommandTimeoutError k)"
  by (auto simp: connect_def Let_def establish_not_timeout split: option.splits)

text \<open>The timer and a resolved promise.\<close>

lemma on_event_timer_var: "timer_var (on_event s c e st) = timer_var st"
  by (cases "(s, c, e, st)" rule: on_event.cases) (simp_all add: settle_simps cleanup_simps Let_def)

lemma on_timer_timer_var: "timer_var (on_timer T st) = timer_var st"
  by (simp add: on_timer_def settle_simps cleanup_simps)

lemma run_events_timer_var: "timer_var (run_events T tie s i es st) = timer_var st"
  by (induction T tie s i es st rule: run_events.induct)
     (simp_all add: on_event_timer_var on_timer_timer_var Let_def)

lemma on_event_inv: "timer_inv st \<Longrightarrow> timer_inv (on_event s c e st)"
  by (cases "(s, c, e, st)" rule: on_event.cases)
     (auto simp: timer_inv_def settle_simps settled_settle cleanup_simps Let_def split: if_splits)

lemma on_timer_inv: "timer_inv st \<Longrightarrow> timer_pending st \<Longrightarrow> timer_inv (on_timer T st)"
  by (auto simp: timer_inv_def on_timer_def settle_simps settled_settle cleanup_simps split: if_splits)

lemma run_events_inv: "timer_inv st \<Longrightarrow> timer_inv (run_events T tie s i es st)"
  by (induction T tie s i es st rule: run_events.induct)
     (simp_all add: on_event_inv on_timer_inv Let_def)

lemma establish_effects:
  "set (snd (snd (establish env n config m))) \<subseteq> range (\<lambda>(i, c). ClientConnect i c) \<union> range Uncaught"
  by (auto simp: establish_def generateConnectionId_def Let_def
           split: prod.splits sum.splits transport_event.splits option.splits if_splits)

lemma connect_effects:
  "set (snd (snd (connect cfg env tgt m))) \<subseteq> range (\<lambda>(i, c). ClientConnect i c) \<union> range Uncaught"
  by (simp add: connect_def Let_def establish_effects split: option.splits)

lemma connect_no_TimerFired:
  "connect cfg env tgt m = (out, m1, fx) \<Longrightarrow> TimerFired \<notin> set fx"
  using connect_effects [of cfg env tgt m] by auto

text \<open>The trace only grows.\<close>

lemma on_event_trace: "set (trace st) \<subseteq> set (trace (on_event s c e st))"
  by (cases "(s, c, e, st)" rule: on_event.cases) (auto simp: settle_simps cleanup_simps Let_def)

lemma on_timer_trace: "set (trace st) \<subseteq> set (trace (on_timer T st))"
  by (auto simp: on_timer_def settle_simps cleanup_simps)

lemma run_events_trace: "set (trace st) \<subseteq> set (trace (run_events T tie s i es st))"
proof (induction es arbitrary: st)
  case Nil
  then show ?case using on_timer_trace by simp
next
  case (Cons x es)
  obtain t e where x: "x = (t, e)" by (cases x)
  let ?st1 = "if timer_pending st \<and> timer_due tie (timer_delay T) t then on_timer T st else st"
  have "set (trace st) \<subseteq> set (trace ?st1)" using on_timer_trace by simp
  also have "\<dots> \<subseteq> set (trace (on_event s (i + t) e ?st1))" by (rule on_event_trace)
  also have "\<dots> \<subseteq> set (trace (run_events T tie s i es (on_event s (i + t) e ?st1)))" by (rule Cons.IH)
  finally show ?case using x by (simp add: Let_def)
qed

text \<open>The duration of a result counts the time of connect.\<close>

lemma on_event_duration:
  "duration_inv c st \<Longrightarrow> duration_inv c (on_event s (s + c + t) e st)"
  by (cases "(s, s + c + t, e, st)" rule: on_event.cases)
     (auto simp: duration_inv_def settled_settle cleanup_simps Let_def split: outcome.splits)

lemma on_timer_duration: "duration_inv c st \<Longrightarrow> duration_inv c (on_timer T st)"
  by (auto simp: duration_inv_def on_timer_def settled_settle cleanup_simps split: outcome.splits)

lemma run_events_duration:
  "duration_inv c st \<Longrightarrow> duration_inv c (run_events T tie s (s + c) es st)"
proof (induction es arbitrary: st)
  case Nil
  then show ?case by (simp add: on_timer_duration)
next
  case (Cons x es)
  obtain t e where x: "x = (t, e)" by (cases x)
  let ?st1 = "if timer_pending st \<and> timer_due tie (timer_delay T) t then on_timer T st else st"
  have "duration_inv c ?st1" using Cons.prems by (simp add: on_timer_duration)
  then have "duration_inv c (on_event s (s + c + t) e ?st1)" by (rule on_event_duration)
  then have "duration_inv c (run_events T tie s (s + c) es (on_event s (s + c + t) e ?st1))"
    by (rule Cons.IH)
  then show ?case using x by (simp add: Let_def)
qed

text \<open>Setting durations to 0 commutes with every callback, whatever the clock says.\<close>

lemma without_duration_Pending [simp]:
  "without_duration out = Pending \<longleftrightarrow> out = Pending"
  by (simp add: without_duration_def split: outcome.splits)

lemma without_duration_idem [simp]: "without_duration (without_duration out) = without_duration out"
  by (simp add: without_duration_def split: outcome.splits)

lemma erase_idem [simp]: "erase_duration (erase_duration st) = erase_duration st"
  by (simp add: erase_duration_def)

lemma erase_fields [simp]:
  "stdout_var (erase_duration st) = stdout_var st"
  "stderr_var (erase_duration st) = stderr_var st"
  "exit_code_var (erase_duration st) = exit_code_var st"
  "timer_pending (erase_duration st) = timer_pending st"
  "listening (erase_duration st) = listening st"
  "trace (erase_duration st) = trace st"
  "settled (erase_duration st) = without_duration (settled st)"
  by (simp_all add: erase_duration_def)

lemma erase_settle:
  "erase_duration (settle out (erase_duration st)) = erase_duration (settle out st)"
  by (simp add: erase_duration_def settle_def)

lemma erase_settle_cong:
  "without_duration out = without_duration out'
   \<Longrightarrow> erase_duration (settle out st) = erase_duration (settle out' st)"
  by (simp add: erase_duration_def settle_def)

lemma cleanup_erase: "cleanup (erase_duration st) = erase_duration (cleanup st)"
  by (simp add: erase_duration_def cleanup_def)

lemma update_erase:
  "(erase_duration st)\<lparr>exit_code_var := code\<rparr> = erase_duration (st\<lparr>exit_code_var := code\<rparr>)"
  "(erase_duration st)\<lparr>listening := b\<rparr> = erase_duration (st\<lparr>listening := b\<rparr>)"
  "(erase_duration st)\<lparr>stdout_var := x\<rparr> = erase_duration (st\<lparr>stdout_var := x\<rparr>)"
  "(erase_duration st)\<lparr>stderr_var := x\<rparr> = erase_duration (st\<lparr>stderr_var := x\<rparr>)"
  "(erase_duration st)\<lparr>timer_pending := p, trace := tr\<rparr>
     = erase_duration (st\<lparr>timer_pending := p, trace := tr\<rparr>)"
  by (simp_all add: erase_duration_def)

lemma erase_on_timer: "erase_duration (on_timer T (erase_duration st)) = erase_duration (on_timer T st)"
  by (simp add: on_timer_def update_erase cleanup_erase erase_settle)

lemma erase_on_event:
  "erase_duration (on_event s' c' e (erase_duration st)) = erase_duration (on_event s c e st)"
proof (cases e)
  case (ExecCallback err)
  then show ?thesis
    by (cases err) (simp_all add: cleanup_erase erase_settle update_erase)
next
  case (StdoutData d)
  then show ?thesis by (simp add: update_erase)
next
  case (StderrData d)
  then show ?thesis by (simp add: update_erase)
next
  case (Close code)
  show ?thesis
  proof (cases "listening st")
    case True
    let ?st1 = "(cleanup st)\<lparr>exit_code_var := code\<rparr>"
    let ?r = "\<lambda>d. Resolved \<lparr>stdout = stdout_var ?st1, stderr = stderr_var ?st1,
                            exit_code = exit_code_var ?st1, duration = d\<rparr>"
    have "erase_duration (on_event s' c' e (erase_duration st))
          = erase_duration (settle (?r (c' - s')) (erase_duration ?st1))"
      using True Close by (simp add: Let_def cleanup_erase update_erase)
    also have "\<dots> = erase_duration (settle (?r (c' - s')) ?st1)" by (rule erase_settle)
    also have "\<dots> = erase_duration (settle (?r (c - s)) ?st1)"
      by (rule erase_settle_cong) (simp add: without_duration_def)
    also have "\<dots> = erase_duration (on_event s c e st)"
      using True Close by (simp add: Let_def)
    finally show ?thesis .
  next
    case False
    with Close show ?thesis by simp
  qed
qed

lemma erase_run_events:
  "erase_duration (run_events T tie s' i' es (erase_duration st))
   = erase_duration (run_events T tie s i es st)"
proof (induction es arbitrary: st s i)
  case Nil
  then show ?case by (simp add: erase_on_timer)
next
  case (Cons x es)
  obtain t e where x: "x = (t, e)" by (cases x)
  let ?st1 = "if timer_pending st \<and> timer_due tie (timer_delay T) t then on_timer T st else st"
  let ?st1' = "if timer_pending st \<and> timer_due tie (timer_delay T) t
               then on_timer T (erase_duration st) else erase_duration st"
  have a: "erase_duration ?st1' = erase_duration ?st1"
    by (simp add: erase_on_timer)
  have b: "erase_duration (on_event s' (i' + t) e ?st1') = erase_duration (on_event s (i + t) e ?st1)"
    using erase_on_event [of s' "i' + t" e ?st1' s' "i' + t"]
          erase_on_event [of s' "i' + t" e ?st1 s "i + t"] a by simp
  have "erase_duration (run_events T tie s' i' es (on_event s' (i' + t) e ?st1'))
        = erase_duration (run_events T tie s' i' es (erase_duration (on_event s' (i' + t) e ?st1')))"
    using Cons.IH [where st = "on_event s' (i' + t) e ?st1'" and s = s' and i = i'] by simp
  also have "\<dots> = erase_duration (run_events T tie s i es (on_event s (i + t) e ?st1))"
    unfolding b by (rule Cons.IH)
  finally show ?case using x by (simp add: Let_def)
qed

subsection \<open>executeCommand as a whole\<close>

text \<open>A positive timeout, a session, and no completion within the timeout.\<close>

lemma executeCommand_timeout:
  assumes T: "0 < T"
    and c: "connect cfg (conn_env env) tgt m = (Resolved c, m1, fx)"
    and x: "exec_throws env = None"
    and ev: "\<forall>(t, e) \<in> set (events env).
               (\<exists>code. e = Close code) \<or> (\<exists>err. e = ExecCallback (Some err)) \<longrightarrow> T * 1000 < int t"
  shows "fst (executeCommand cfg env tgt cmd (Some T) m) = Rejected (CommandTimeoutError T)"
proof -
  from ev T have "\<forall>(t, e) \<in> set (events env).
      (\<exists>code. e = Close code) \<or> (\<exists>err. e = ExecCallback (Some err))
        \<longrightarrow> timer_due (timer_first_on_tie env) (timer_delay T) t"
    using timer_delay_due by blast
  then show ?thesis
    using T c x by (simp add: executeCommand_def Let_def run_events_timeout)
qed

text \<open>Timeout 0.\<close>

lemma executeCommand_no_timer:
  "fst (executeCommand cfg env tgt cmd (Some 0) m) \<noteq> Rejected (CommandTimeoutError k)"
proof (cases "connect cfg (conn_env env) tgt m")
  case (fields out m1 fx)
  show ?thesis
  proof (cases out)
    case (Resolved c)
    with fields show ?thesis
      by (simp add: executeCommand_def Let_def run_events_no_timer split: option.splits)
  next
    case (Rejected e)
    with fields connect_not_timeout [of cfg "conn_env env" tgt m k] show ?thesis
      by (simp add: executeCommand_def Let_def)
  next
    case Pending
    with fields show ?thesis by (simp add: executeCommand_def Let_def)
  qed
qed

text \<open>A resolved call has cleared its timer, and the timer never ran.\<close>

lemma executeCommand_cancels_timer:
  assumes T: "0 < T" and r: "fst (executeCommand cfg env tgt cmd (Some T) m) = Resolved r"
  shows "ClearTimeout \<in> set (snd (snd (executeCommand cfg env tgt cmd (Some T) m)))
         \<and> TimerFired \<notin> set (snd (snd (executeCommand cfg env tgt cmd (Some T) m)))"
proof (cases "connect cfg (conn_env env) tgt m")
  case (fields out m1 fx)
  from r fields obtain c where out: "out = Resolved c"
    by (cases out) (simp_all add: executeCommand_def Let_def)
  from r fields out have x: "exec_throws env = None"
    by (cases "exec_throws env") (simp_all add: executeCommand_def Let_def)
  let ?init = "\<lparr>stdout_var = [], stderr_var = [], exit_code_var = None,
               timer_var = True, timer_pending = True, listening = False, settled = Pending,
               trace = fx @ [SetTimeout (timer_delay T)] @ [ClientExec (id' c) cmd]\<rparr>"
  let ?final = "run_events T (timer_first_on_tie env) (now (conn_env env))
               (now (conn_env env) + connect_ms env) (events env) ?init"
  have e: "executeCommand cfg env tgt cmd (Some T) m = (settled ?final, m1, trace ?final)"
    using fields out x T by (simp add: executeCommand_def Let_def)
  have "TimerFired \<notin> set fx" using fields by (rule connect_no_TimerFired)
  then have "timer_inv ?init" by (simp add: timer_inv_def)
  then have "timer_inv ?final" by (rule run_events_inv)
  moreover have "settled ?final = Resolved r" using r e by simp
  moreover have "timer_var ?final" by (simp add: run_events_timer_var)
  ultimately have "ClearTimeout \<in> set (trace ?final) \<and> TimerFired \<notin> set (trace ?final)"
    by (simp add: timer_inv_def)
  with e show ?thesis by simp
qed

text \<open>Two calls that differ only in the time connect takes.\<close>

lemma executeCommand_connect_ms:
  "(case executeCommand cfg (env\<lparr>connect_ms := a\<rparr>) tgt cmd topt m of
      (out, rest) \<Rightarrow> (without_duration out, rest))
   = (case executeCommand cfg (env\<lparr>connect_ms := b\<rparr>) tgt cmd topt m of
      (out, rest) \<Rightarrow> (without_duration out, rest))"
proof (cases "connect cfg (conn_env env) tgt m")
  case (fields out m1 fx)
  show ?thesis
  proof (cases out)
    case (Resolved c)
    show ?thesis
    proof (cases "exec_throws env")
      case None
      define T where "T = (case topt of None \<Rightarrow> 30 | Some t \<Rightarrow> (t::int))"
      define init where "init = \<lparr>stdout_var = [], stderr_var = [], exit_code_var = None,
               timer_var = (0 < T), timer_pending = (0 < T), listening = False, settled = Pending,
               trace = fx @ (if 0 < T then [SetTimeout (timer_delay T)] else [])
                          @ [ClientExec (id' c) cmd]\<rparr>"
      define run where "run = (\<lambda>d. run_events T (timer_first_on_tie env) (now (conn_env env))
                                 (now (conn_env env) + d) (events env) init)"
      have e: "executeCommand cfg (env\<lparr>connect_ms := d\<rparr>) tgt cmd topt m
                 = (settled (run d), m1, trace (run d))" for d
        using fields Resolved None by (simp add: executeCommand_def Let_def T_def init_def run_def)
      have "erase_duration (run a) = erase_duration (run b)"
        unfolding run_def
        using erase_run_events [of T "timer_first_on_tie env" "now (conn_env env)"
                 "now (conn_env env) + a" "events env" init "now (conn_env env)" "now (conn_env env) + a"]
              erase_run_events [of T "timer_first_on_tie env" "now (conn_env env)"
                 "now (conn_env env) + a" "events env" init "now (conn_env env)" "now (conn_env env) + b"]
        by simp
      then have "without_duration (settled (run a)) = without_duration (settled (run b))"
        and "trace (run a) = trace (run b)"
        using erase_fields(7) [of "run a"] erase_fields(7) [of "run b"]
              erase_fields(6) [of "run a"] erase_fields(6) [of "run b"] by simp_all
      then show ?thesis by (simp add: e)
    next
      case (Some x)
      with fields Resolved show ?thesis by (simp add: executeCommand_def Let_def without_duration_def)
    qed
  next
    case (Rejected e)
    with fields show ?thesis by (simp add: executeCommand_def Let_def without_duration_def)
  next
    case Pending
    with fields show ?thesis by (simp add: executeCommand_def Let_def without_duration_def)
  qed
qed

text \<open>The duration of a result is measured from the start of the call.\<close>

lemma executeCommand_duration:
  assumes "fst (executeCommand cfg env tgt cmd topt m) = Resolved r"
  shows "connect_ms env \<le> duration r"
proof (cases "connect cfg (conn_env env) tgt m")
  case (fields out m1 fx)
  from assms fields obtain c where out: "out = Resolved c"
    by (cases out) (simp_all add: executeCommand_def Let_def)
  from assms fields out have x: "exec_throws env = None"
    by (cases "exec_throws env") (simp_all add: executeCommand_def Let_def)
  define T where "T = (case topt of None \<Rightarrow> 30 | Some t \<Rightarrow> (t::int))"
  define init where "init = \<lparr>stdout_var = [], stderr_var = [], exit_code_var = None,
               timer_var = (0 < T), timer_pending = (0 < T), listening = False, settled = Pending,
               trace = fx @ (if 0 < T then [SetTimeout (timer_delay T)] else [])
                          @ [ClientExec (id' c) cmd]\<rparr>"
  define final where "final = run_events T (timer_first_on_tie env) (now (conn_env env))
                                 (now (conn_env env) + connect_ms env) (events env) init"
  have e: "executeCommand cfg env tgt cmd topt m = (settled final, m1, trace final)"
    using fields out x by (simp add: executeCommand_def Let_def T_def init_def final_def)
  have "duration_inv (connect_ms env) init" by (simp add: duration_inv_def init_def)
  then have "duration_inv (connect_ms env) final"
    unfolding final_def by (rule run_events_duration)
  moreover have "settled final = Resolved r" using assms e by simp
  ultimately show ?thesis by (simp add: duration_inv_def)
qed

text \<open>The empty target, and what is sent to the session.\<close>

lemma connect_empty_target:
  "connect cfg env (Some []) m = connect cfg env (getDefaultServer cfg) m"
  by (simp add: connect_def truthy_def)

lemma executeCommand_exec_issued:
  assumes "connect cfg (conn_env env) tgt m = (Resolved c, m1, fx)"
  shows "ClientExec (id' c) cmd \<in> set (snd (snd (executeCommand cfg env tgt cmd topt m)))"
proof (cases "exec_throws env")
  case None
  define T where "T = (case topt of None \<Rightarrow> 30 | Some t \<Rightarrow> (t::int))"
  define init where "init = \<lparr>stdout_var = [], stderr_var = [], exit_code_var = None,
               timer_var = (0 < T), timer_pending = (0 < T), listening = False, settled = Pending,
               trace = fx @ (if 0 < T then [SetTimeout (timer_delay T)] else [])
                          @ [ClientExec (id' c) cmd]\<rparr>"
  define final where "final = run_events T (timer_first_on_tie env) (now (conn_env env))
                                 (now (conn_env env) + connect_ms env) (events env) init"
  have e: "executeCommand cfg env tgt cmd topt m = (settled final, m1, trace final)"
    using assms None by (simp add: executeCommand_def Let_def T_def init_def final_def)
  have "ClientExec (id' c) cmd \<in> set (trace init)" by (simp add: init_def)
  then have "ClientExec (id' c) cmd \<in> set (trace final)"
    unfolding final_def using run_events_trace by blast
  with e show ?thesis by simp
next
  case (Some x)
  with assms show ?thesis by (simp add: executeCommand_def Let_def)
qed

subsection \<open>disconnect on a map\<close>

text \<open>
  The loop removes every entry it visits and counts it. On a map, \<open>disconnect\<close> does what
  section 4.2 of the specification says, an id counting as given when it is not empty.
\<close>

lemma disconnect_loop_map:
  "disconnect_loop todo (MapObject al) count fx
   = (Inr (count + length todo),
      MapObject (filter (\<lambda>p. fst p \<notin> fst ` set todo) al),
      fx @ map (\<lambda>p. ClientEnd (id' (snd p))) todo)"
proof (induction todo arbitrary: al count fx)
  case Nil
  then show ?case by simp
next
  case (Cons x todo)
  obtain i conn where x: "x = (i, conn)" by (cases x)
  have "filter (\<lambda>p. fst p \<notin> fst ` set todo) (AList.delete i al)
        = filter (\<lambda>p. fst p \<notin> fst ` set (x # todo)) al"
    using x by (induction al) auto
  then show ?case using x Cons.IH by (simp add: reg_delete_def)
qed

lemma disconnect_map_registry:
  assumes m: "connections m = MapObject al"
  shows "i \<noteq> [] \<Longrightarrow> map_of al i = Some conn \<Longrightarrow>
           disconnect (Some i) m
           = (Inr 1, m\<lparr>connections := MapObject (AList.delete i al)\<rparr>, [ClientEnd (id' conn)])"
    and "i \<noteq> [] \<Longrightarrow> map_of al i = None \<Longrightarrow> disconnect (Some i) m = (Inr 0, m, [])"
    and "\<not> truthy arg \<Longrightarrow>
           disconnect arg m
           = (Inr (length al), m\<lparr>connections := MapObject []\<rparr>,
              map (\<lambda>p. ClientEnd (id' (snd p))) al)"
    and "\<not> truthy arg \<Longrightarrow> total (getStatus (fst (snd (disconnect arg m)))) = Some 0"
proof -
  show "i \<noteq> [] \<Longrightarrow> map_of al i = Some conn \<Longrightarrow>
           disconnect (Some i) m
           = (Inr 1, m\<lparr>connections := MapObject (AList.delete i al)\<rparr>, [ClientEnd (id' conn)])"
    using m by (simp add: disconnect_def truthy_value_def truthy_def reg_get_def reg_delete_def)
  show "i \<noteq> [] \<Longrightarrow> map_of al i = None \<Longrightarrow> disconnect (Some i) m = (Inr 0, m, [])"
    using m by (simp add: disconnect_def truthy_value_def truthy_def reg_get_def)
  have f: "filter (\<lambda>p. fst p \<notin> fst ` set al) al = []"
    by (auto simp: filter_empty_conv)
  show all: "\<not> truthy arg \<Longrightarrow>
           disconnect arg m
           = (Inr (length al), m\<lparr>connections := MapObject []\<rparr>,
              map (\<lambda>p. ClientEnd (id' (snd p))) al)" for arg
    using m by (simp add: disconnect_def truthy_value_def reg_entries_def disconnect_loop_map f)
  show "\<not> truthy arg \<Longrightarrow> total (getStatus (fst (snd (disconnect arg m)))) = Some 0"
    by (simp add: all getStatus_def reg_size_def)
qed

text \<open>Where the keys are distinct, as in a \<open>Map\<close>, deleting a present key removes one entry.\<close>

lemma delete_removes_one:
  "distinct (map fst al) \<Longrightarrow> map_of al i = Some conn \<Longrightarrow> length (AList.delete i al) + 1 = length al"
proof (induction al)
  case Nil
  then show ?case by simp
next
  case (Cons p al)
  show ?case
  proof (cases "fst p = i")
    case True
    with Cons.prems(1) have "i \<notin> fst ` set al" by auto
    then have "AList.delete i al = al" by (rule delete_id)
    with True show ?thesis by simp
  next
    case False
    with Cons show ?thesis by (cases p) auto
  qed
qed


section \<open>The sample data, evaluated\<close>

lemmas sample_defs =
  cred_a_def cred_b_def env_ready_def env_down_def config_a_def config_inherited_def
  session_a_def manager_a_def env_slow_connect_def env_hang_def env_quick_def

lemmas store_eval =
  empty_store_def addServer_def deleteServer_def setDefaultServer_def saveConfig_def
  getServer_def stored_def object_prototype_def getDefaultServer_def serverConfig_def
  default_valid_def Let_def

lemmas manager_eval =
  connect_def establish_def generateConnectionId_def truthy_def truthy_value_def
  reg_values_def reg_entries_def reg_get_def reg_set_def reg_delete_def reg_size_def
  new_manager_js_def new_manager_ts_def string_of_nat.simps field_def optional_field_def
  getServer_def object_prototype_def Let_def

lemmas exec_eval =
  executeCommand_def settle_def cleanup_def on_timer_def timer_delay_def timer_due_def Let_def

lemma store_a_eval:
  "store_a = \<lparr>default_server = Some ''a'', servers = [(''a'', serverConfig cred_a)]\<rparr>"
  by (simp add: store_a_def store_eval cred_a_def)

lemma store_a_lookup:
  "getServer ''a'' store_a = Some (Credential (serverConfig cred_a))"
  "getServer ''b'' store_a = None"
  "getDefaultServer store_a = Some ''a''"
  "stored ''a'' store_a = Some (serverConfig cred_a)"
  "stored ''b'' store_a = None"
  by (simp_all add: store_a_eval getServer_def stored_def object_prototype_def getDefaultServer_def)

lemma connect_a_fresh:
  "connect store_a env_ready (Some ''a'') new_manager_js
   = (Resolved session_a, manager_a, [ClientConnect ''conn_1000_0'' config_a])"
  by (simp add: store_a_eval manager_eval sample_defs getServer_def serverConfig_def)

lemma connect_empty_fresh:
  "connect store_a env_ready (Some []) new_manager_js
   = (Resolved session_a, manager_a, [ClientConnect ''conn_1000_0'' config_a])"
  by (simp add: store_a_eval manager_eval sample_defs getServer_def getDefaultServer_def serverConfig_def)

lemma run_slow:
  "executeCommand store_a env_slow_connect (Some ''a'') ''uptime'' (Some 3) new_manager_js
   = (Resolved \<lparr>stdout = ''up'', stderr = [], exit_code = Some 0, duration = 6000\<rparr>, manager_a,
      [ClientConnect ''conn_1000_0'' config_a, SetTimeout 3000,
       ClientExec ''conn_1000_0'' ''uptime'', ClearTimeout])"
  by (simp add: executeCommand_def env_slow_connect_def connect_a_fresh)
     (simp add: exec_eval sample_defs)

lemma run_empty_target:
  "executeCommand store_a env_quick (Some []) ''uptime'' (Some 3) new_manager_js
   = (Resolved \<lparr>stdout = [], stderr = [], exit_code = Some 0, duration = 60\<rparr>, manager_a,
      [ClientConnect ''conn_1000_0'' config_a, SetTimeout 3000,
       ClientExec ''conn_1000_0'' ''uptime'', ClearTimeout])"
  by (simp add: executeCommand_def env_quick_def connect_empty_fresh)
     (simp add: exec_eval sample_defs)

lemma run_empty_command:
  "executeCommand store_a env_quick (Some ''a'') [] (Some 3) new_manager_js
   = (Resolved \<lparr>stdout = [], stderr = [], exit_code = Some 0, duration = 60\<rparr>, manager_a,
      [ClientConnect ''conn_1000_0'' config_a, SetTimeout 3000,
       ClientExec ''conn_1000_0'' [], ClearTimeout])"
  by (simp add: executeCommand_def env_quick_def connect_a_fresh)
     (simp add: exec_eval sample_defs)

lemma run_hang:
  "executeCommand store_a env_hang (Some ''a'') ''sleep 7'' (Some 3) new_manager_js
   = (Rejected (CommandTimeoutError 3), manager_a,
      [ClientConnect ''conn_1000_0'' config_a, SetTimeout 3000,
       ClientExec ''conn_1000_0'' ''sleep 7'', TimerFired, ClearTimeout, ClearTimeout])"
  "executeCommand store_a env_hang (Some ''a'') ''sleep 7'' (Some 0) new_manager_js
   = (Resolved \<lparr>stdout = ''up'', stderr = [], exit_code = Some 0, duration = 7020\<rparr>, manager_a,
      [ClientConnect ''conn_1000_0'' config_a, ClientExec ''conn_1000_0'' ''sleep 7''])"
  by (simp_all add: executeCommand_def env_hang_def connect_a_fresh)
     (simp_all add: exec_eval sample_defs)

lemma connect_refused:
  "connect store_a env_down (Some ''a'') new_manager_js
   = (Rejected (ConnectionError ''ECONNREFUSED''),
      \<lparr>connections = MapObject [], connectionCounter = 1\<rparr>,
      [ClientConnect ''conn_2000_0'' config_a])"
  by (simp add: store_a_eval manager_eval sample_defs getServer_def serverConfig_def)

lemma connect_on_array:
  "connect store_a env_ready (Some ''a'') new_manager_ts
   = (Pending, \<lparr>connections = ArrayLiteral, connectionCounter = 1\<rparr>,
      [ClientConnect ''conn_1000_0'' config_a, Uncaught (TypeError ''this.connections.set'')])"
  by (simp add: store_a_eval manager_eval sample_defs getServer_def serverConfig_def)


section \<open>The claims\<close>

text \<open>
  C1 (session reuse). If \<open>connect\<close> resolves with a session, the next \<open>connect\<close> for the same
  target on the manager it left resolves with the very same session (same \<open>id\<close>), leaves
  the manager as it is (no new entry, no new id) and has no effect on the outside world,
  whatever the transport would do. In general \<open>connect\<close> returns the first registered
  session whose \<open>server_name\<close> is the resolved target and whose \<open>connected\<close> flag is true,
  at once.
\<close>

theorem session_reuse:
  "(connect cfg env1 tgt m = (Resolved c, m1, fx1)
      \<longrightarrow> connect cfg env2 tgt m1 = (Resolved c, m1, []))
   \<and> (truthy_value (if truthy tgt then tgt else getDefaultServer cfg) = Some n
        \<and> getServer n cfg \<noteq> None
        \<and> find (\<lambda>conn. server_name conn = n \<and> connected conn) (reg_values (connections m')) = Some c'
      \<longrightarrow> connect cfg env tgt m' = (Resolved c', m', []))"
proof (intro conjI impI)
  assume a: "connect cfg env1 tgt m = (Resolved c, m1, fx1)"
  let ?nm = "if truthy tgt then tgt else getDefaultServer cfg"
  from a obtain k where k: "truthy_value ?nm = Some k"
    by (cases "truthy_value ?nm") (auto simp: connect_def Let_def)
  from a k obtain config where config: "getServer k cfg = Some config"
    by (cases "getServer k cfg") (auto simp: connect_def Let_def)
  let ?P = "\<lambda>conn. server_name conn = k \<and> connected conn"
  show "connect cfg env2 tgt m1 = (Resolved c, m1, [])"
  proof (cases "find ?P (reg_values (connections m))")
    case (Some conn)
    with a k config have "conn = c" "m1 = m" by (auto simp: connect_def Let_def)
    with Some k config show ?thesis by (simp add: connect_def Let_def)
  next
    case None
    with a k config have e: "establish env1 k config m = (Resolved c, m1, fx1)"
      by (simp add: connect_def Let_def)
    from establish_Resolved [OF e] obtain al where
      al: "connections m = MapObject al" "connections m1 = MapObject (AList.update (id' c) c al)"
      and c: "server_name c = k" "connected c" by blast
    from None al have "find ?P (map snd al) = None" by (simp add: reg_values_def)
    then have "find ?P (map snd (AList.update (id' c) c al)) = Some c"
      using c by (intro find_update_new) simp_all
    with al k config show ?thesis by (simp add: connect_def Let_def reg_values_def)
  qed
next
  assume "truthy_value (if truthy tgt then tgt else getDefaultServer cfg) = Some n
        \<and> getServer n cfg \<noteq> None
        \<and> find (\<lambda>conn. server_name conn = n \<and> connected conn) (reg_values (connections m')) = Some c'"
  then show "connect cfg env tgt m' = (Resolved c', m', [])"
    by (auto simp: connect_def Let_def)
qed

theorem session_reuse_witness:
  "connect store_a env_ready (Some ''a'') new_manager_js
     = (Resolved session_a, manager_a, [ClientConnect ''conn_1000_0'' config_a])
   \<and> connect store_a env_down (Some ''a'') manager_a = (Resolved session_a, manager_a, [])
   \<and> find (\<lambda>conn. server_name conn = ''a'' \<and> connected conn) (reg_values (connections manager_a))
       = Some session_a
   \<and> connect store_a env_down None manager_a = (Resolved session_a, manager_a, [])"
proof -
  have first: "connect store_a env_ready (Some ''a'') new_manager_js
     = (Resolved session_a, manager_a, [ClientConnect ''conn_1000_0'' config_a])"
    by (rule connect_a_fresh)
  have second: "connect store_a env_down (Some ''a'') manager_a = (Resolved session_a, manager_a, [])"
    using first
      session_reuse [where cfg = store_a and ?env1.0 = env_ready and tgt = "Some ''a''"
        and m = new_manager_js and c = session_a and ?m1.0 = manager_a
        and ?fx1.0 = "[ClientConnect ''conn_1000_0'' config_a]" and ?env2.0 = env_down]
    by blast
  have scan: "truthy_value (if truthy None then None else getDefaultServer store_a) = Some ''a''
      \<and> getServer ''a'' store_a \<noteq> None
      \<and> find (\<lambda>conn. server_name conn = ''a'' \<and> connected conn) (reg_values (connections manager_a))
          = Some session_a"
    by (simp add: store_a_lookup truthy_def truthy_value_def reg_values_def manager_a_def session_a_def)
  have third: "connect store_a env_down None manager_a = (Resolved session_a, manager_a, [])"
    using scan
      session_reuse [where cfg = store_a and tgt = None and n = "''a''" and m' = manager_a
        and c' = session_a and env = env_down]
    by blast
  from first second scan third show ?thesis by blast
qed

text \<open>
  C5 (failure modes of connect), as the code has it. With no target name and no default,
  \<open>connect\<close> is rejected with \<open>NoTargetError\<close>. The empty string is no target name: the call
  with it is the call with no argument, so the default is used. With a non-empty name
  for which the store holds no credential, and which is not the name of a member of
  \<open>Object.prototype\<close>, \<open>connect\<close> is rejected with \<open>UnknownServerError\<close>. Whenever \<open>connect\<close>
  does not resolve with a session (name resolution, key file, transport or
  authentication failure), the registry is what it was before the call.
\<close>

theorem connect_failure_modes:
  "(\<not> truthy tgt \<and> \<not> truthy (getDefaultServer cfg)
      \<longrightarrow> connect cfg env tgt m = (Rejected NoTargetError, m, []))
   \<and> connect cfg env (Some []) m = connect cfg env None m
   \<and> (n \<noteq> [] \<and> stored n cfg = None \<and> n \<notin> set object_prototype
      \<longrightarrow> connect cfg env (Some n) m = (Rejected (UnknownServerError n), m, []))
   \<and> ((\<forall>c. fst (connect cfg env tgt m) \<noteq> Resolved c)
      \<longrightarrow> connections (fst (snd (connect cfg env tgt m))) = connections m)"
proof (intro conjI impI)
  show "connect cfg env (Some []) m = connect cfg env None m"
    by (simp add: connect_def truthy_def)
next
  assume "\<not> truthy tgt \<and> \<not> truthy (getDefaultServer cfg)"
  then show "connect cfg env tgt m = (Rejected NoTargetError, m, [])"
    by (simp add: connect_def truthy_value_def)
next
  assume "n \<noteq> [] \<and> stored n cfg = None \<and> n \<notin> set object_prototype"
  then have "n \<noteq> []" "getServer n cfg = None" by (simp_all add: getServer_None)
  then show "connect cfg env (Some n) m = (Rejected (UnknownServerError n), m, [])"
    by (simp add: connect_def truthy_value_def truthy_def)
next
  assume f: "\<forall>c. fst (connect cfg env tgt m) \<noteq> Resolved c"
  obtain out m1 fx where r: "connect cfg env tgt m = (out, m1, fx)"
    by (cases "connect cfg env tgt m") auto
  with f have nr: "\<forall>c. out \<noteq> Resolved c" by simp
  from r nr have "connections m1 = connections m"
    by (auto simp: connect_def Let_def split: option.splits dest: establish_registry)
  with r show "connections (fst (snd (connect cfg env tgt m))) = connections m" by simp
qed

theorem connect_failure_modes_witness:
  "connect empty_store env_ready None manager_a = (Rejected NoTargetError, manager_a, [])
   \<and> stored ''b'' store_a = None
   \<and> connect store_a env_ready (Some ''b'') manager_a = (Rejected (UnknownServerError ''b''), manager_a, [])
   \<and> fst (connect store_a env_down (Some ''a'') new_manager_js) = Rejected (ConnectionError ''ECONNREFUSED'')
   \<and> connections (fst (snd (connect store_a env_down (Some ''a'') new_manager_js)))
       = connections new_manager_js"
proof -
  have h1: "\<not> truthy None \<and> \<not> truthy (getDefaultServer empty_store)"
    by (simp add: truthy_def getDefaultServer_def empty_store_def)
  have c1: "connect empty_store env_ready None manager_a = (Rejected NoTargetError, manager_a, [])"
    using h1 connect_failure_modes [where tgt = None and cfg = empty_store and env = env_ready
      and m = manager_a] by blast
  have h2: "''b'' \<noteq> [] \<and> stored ''b'' store_a = None \<and> ''b'' \<notin> set object_prototype"
    by (simp add: store_a_lookup object_prototype_def)
  have c2: "connect store_a env_ready (Some ''b'') manager_a
            = (Rejected (UnknownServerError ''b''), manager_a, [])"
    using h2 connect_failure_modes [where n = "''b''" and cfg = store_a and env = env_ready
      and m = manager_a] by blast
  have r: "fst (connect store_a env_down (Some ''a'') new_manager_js)
           = Rejected (ConnectionError ''ECONNREFUSED'')"
    by (simp add: connect_refused)
  then have h3: "\<forall>c. fst (connect store_a env_down (Some ''a'') new_manager_js) \<noteq> Resolved c"
    by simp
  have c3: "connections (fst (snd (connect store_a env_down (Some ''a'') new_manager_js)))
            = connections new_manager_js"
    using h3 connect_failure_modes [where tgt = "Some ''a''" and cfg = store_a and env = env_down
      and m = new_manager_js] by blast
  from c1 h2 c2 r c3 show ?thesis by blast
qed

text \<open>
  Against C5 as stated: the store holds "a" only, and "a" is the default. The empty
  string is a name not in the store, and \<open>connect\<close> with it resolves with a session to "a".
  "constructor" is a name not in the store, and \<open>connect\<close> with it passes the test of
  \<open>config\<close>, calls \<open>client.connect\<close> without host or user and is rejected with the
  transport's error.
\<close>

theorem connect_unknown_name_counterexample:
  "stored [] store_a = None
   \<and> connect store_a env_ready (Some []) new_manager_js
       = (Resolved session_a, manager_a, [ClientConnect ''conn_1000_0'' config_a])
   \<and> stored ''constructor'' store_a = None
   \<and> connect store_a env_down (Some ''constructor'') new_manager_js
       = (Rejected (ConnectionError ''ECONNREFUSED''),
          \<lparr>connections = MapObject [], connectionCounter = 1\<rparr>,
          [ClientConnect ''conn_2000_0'' config_inherited])"
proof -
  have "stored [] store_a = None" "stored ''constructor'' store_a = None"
    by (simp_all add: store_a_eval stored_def)
  moreover have "connect store_a env_down (Some ''constructor'') new_manager_js
       = (Rejected (ConnectionError ''ECONNREFUSED''),
          \<lparr>connections = MapObject [], connectionCounter = 1\<rparr>,
          [ClientConnect ''conn_2000_0'' config_inherited])"
    by (simp add: store_a_eval manager_eval sample_defs)
  ultimately show ?thesis by (simp add: connect_empty_fresh)
qed

text \<open>
  C2 (timeout behaviour of executeCommand). With \<open>timeout = 0\<close> no timer is armed and the
  call is never rejected with \<open>CommandTimeoutError\<close>, whatever the remote side does and
  however long it takes. With \<open>timeout = T > 0\<close>, once the session is obtained and the exec
  request issued: if every "close" event (and every failure to start) is dispatched
  later than \<open>T\<close> seconds after the timer was armed, or never, the call is rejected with
  \<open>CommandTimeoutError\<close>, so no result is returned. If the call resolves with a result,
  the timer was cleared and never ran.
\<close>

theorem timeout_behaviour:
  "(\<forall>k. fst (executeCommand cfg env tgt cmd (Some 0) m) \<noteq> Rejected (CommandTimeoutError k))
   \<and> (0 < T \<and> connect cfg (conn_env env) tgt m = (Resolved c, m1, fx) \<and> exec_throws env = None
        \<and> (\<forall>(t, e) \<in> set (events env).
              (\<exists>code. e = Close code) \<or> (\<exists>err. e = ExecCallback (Some err)) \<longrightarrow> T * 1000 < int t)
      \<longrightarrow> fst (executeCommand cfg env tgt cmd (Some T) m) = Rejected (CommandTimeoutError T))
   \<and> (0 < T \<and> fst (executeCommand cfg env tgt cmd (Some T) m) = Resolved r
      \<longrightarrow> ClearTimeout \<in> set (snd (snd (executeCommand cfg env tgt cmd (Some T) m)))
          \<and> TimerFired \<notin> set (snd (snd (executeCommand cfg env tgt cmd (Some T) m))))"
proof (intro conjI allI impI)
  fix k
  show "fst (executeCommand cfg env tgt cmd (Some 0) m) \<noteq> Rejected (CommandTimeoutError k)"
    by (rule executeCommand_no_timer)
next
  assume "0 < T \<and> connect cfg (conn_env env) tgt m = (Resolved c, m1, fx) \<and> exec_throws env = None
        \<and> (\<forall>(t, e) \<in> set (events env).
              (\<exists>code. e = Close code) \<or> (\<exists>err. e = ExecCallback (Some err)) \<longrightarrow> T * 1000 < int t)"
  then show "fst (executeCommand cfg env tgt cmd (Some T) m) = Rejected (CommandTimeoutError T)"
    using executeCommand_timeout [of T cfg env tgt m c m1 fx cmd] by blast
next
  assume a: "0 < T \<and> fst (executeCommand cfg env tgt cmd (Some T) m) = Resolved r"
  then show "ClearTimeout \<in> set (snd (snd (executeCommand cfg env tgt cmd (Some T) m)))"
    using executeCommand_cancels_timer [of T cfg env tgt cmd m r] by blast
  from a show "TimerFired \<notin> set (snd (snd (executeCommand cfg env tgt cmd (Some T) m)))"
    using executeCommand_cancels_timer [of T cfg env tgt cmd m r] by blast
qed


theorem timeout_behaviour_witness:
  "fst (executeCommand store_a env_hang (Some ''a'') ''sleep 7'' (Some 0) new_manager_js)
     = Resolved \<lparr>stdout = ''up'', stderr = [], exit_code = Some 0, duration = 7020\<rparr>
   \<and> connect store_a (conn_env env_hang) (Some ''a'') new_manager_js
       = (Resolved session_a, manager_a, [ClientConnect ''conn_1000_0'' config_a])
   \<and> exec_throws env_hang = None
   \<and> events env_hang = [(5, ExecCallback None), (400, StdoutData ''up''), (7000, Close (Some 0))]
   \<and> fst (executeCommand store_a env_hang (Some ''a'') ''sleep 7'' (Some 3) new_manager_js)
       = Rejected (CommandTimeoutError 3)
   \<and> fst (executeCommand store_a env_slow_connect (Some ''a'') ''uptime'' (Some 3) new_manager_js)
       = Resolved \<lparr>stdout = ''up'', stderr = [], exit_code = Some 0, duration = 6000\<rparr>
   \<and> ClearTimeout \<in> set (snd (snd (executeCommand store_a env_slow_connect (Some ''a'') ''uptime''
                                       (Some 3) new_manager_js)))
   \<and> TimerFired \<notin> set (snd (snd (executeCommand store_a env_slow_connect (Some ''a'') ''uptime''
                                       (Some 3) new_manager_js)))"
proof -
  have zero: "fst (executeCommand store_a env_hang (Some ''a'') ''sleep 7'' (Some 0) new_manager_js)
     = Resolved \<lparr>stdout = ''up'', stderr = [], exit_code = Some 0, duration = 7020\<rparr>"
    by (simp add: run_hang)
  have conn: "connect store_a (conn_env env_hang) (Some ''a'') new_manager_js
       = (Resolved session_a, manager_a, [ClientConnect ''conn_1000_0'' config_a])"
    by (simp add: env_hang_def connect_a_fresh)
  have ev: "exec_throws env_hang = None"
    "events env_hang = [(5, ExecCallback None), (400, StdoutData ''up''), (7000, Close (Some 0))]"
    by (simp_all add: env_hang_def)
  have late: "\<forall>(t, e) \<in> set (events env_hang).
      (\<exists>code. e = Close code) \<or> (\<exists>err. e = ExecCallback (Some err)) \<longrightarrow> 3 * 1000 < int t"
    by (simp add: ev)
  have hang: "fst (executeCommand store_a env_hang (Some ''a'') ''sleep 7'' (Some 3) new_manager_js)
       = Rejected (CommandTimeoutError 3)"
    using conn ev(1) late
      timeout_behaviour [where cfg = store_a and env = env_hang and tgt = "Some ''a''"
        and cmd = "''sleep 7''" and m = new_manager_js and T = 3 and c = session_a
        and ?m1.0 = manager_a and fx = "[ClientConnect ''conn_1000_0'' config_a]"]
    by simp
  have res: "fst (executeCommand store_a env_slow_connect (Some ''a'') ''uptime'' (Some 3) new_manager_js)
       = Resolved \<lparr>stdout = ''up'', stderr = [], exit_code = Some 0, duration = 6000\<rparr>"
    by (simp add: run_slow)
  have cleared: "ClearTimeout \<in> set (snd (snd (executeCommand store_a env_slow_connect (Some ''a'')
                    ''uptime'' (Some 3) new_manager_js)))
      \<and> TimerFired \<notin> set (snd (snd (executeCommand store_a env_slow_connect (Some ''a'')
                    ''uptime'' (Some 3) new_manager_js)))"
    using res
      timeout_behaviour [where cfg = store_a and env = env_slow_connect and tgt = "Some ''a''"
        and cmd = "''uptime''" and m = new_manager_js and T = 3
        and r = "\<lparr>stdout = ''up'', stderr = [], exit_code = Some 0, duration = 6000\<rparr>"]
    by simp
  from zero conn ev hang res cleared show ?thesis by blast
qed

text \<open>
  C3 (timeout origin), as the code has it. The timer is armed after the awaited \<open>connect\<close>
  has returned, in the statement before \<open>client.exec\<close>: the \<open>T\<close>-second window starts
  there, not at the start of the call. The time \<open>connect\<close> takes changes nothing of a
  call but the \<open>duration\<close> of its result: outcome (up to that field), manager and effects
  are the same for any two connect times. The call is rejected with \<open>CommandTimeoutError\<close>
  when every "close" event and every failure to start comes later than \<open>T\<close> seconds after
  the arming, or never. The \<open>duration\<close> of a result does count the connect time.
\<close>

theorem timeout_window_starts_after_connect:
  "(case executeCommand cfg (env\<lparr>connect_ms := a\<rparr>) tgt cmd topt m of
      (out, rest) \<Rightarrow> (without_duration out, rest))
   = (case executeCommand cfg (env\<lparr>connect_ms := b\<rparr>) tgt cmd topt m of
      (out, rest) \<Rightarrow> (without_duration out, rest))
   \<and> (0 < T \<and> connect cfg (conn_env env) tgt m = (Resolved c, m1, fx) \<and> exec_throws env = None
        \<and> (\<forall>(t, e) \<in> set (events env).
              (\<exists>code. e = Close code) \<or> (\<exists>err. e = ExecCallback (Some err)) \<longrightarrow> T * 1000 < int t)
      \<longrightarrow> fst (executeCommand cfg env tgt cmd (Some T) m) = Rejected (CommandTimeoutError T))
   \<and> (fst (executeCommand cfg env tgt cmd topt m) = Resolved r \<longrightarrow> connect_ms env \<le> duration r)"
proof (intro conjI impI)
  show "(case executeCommand cfg (env\<lparr>connect_ms := a\<rparr>) tgt cmd topt m of
      (out, rest) \<Rightarrow> (without_duration out, rest))
   = (case executeCommand cfg (env\<lparr>connect_ms := b\<rparr>) tgt cmd topt m of
      (out, rest) \<Rightarrow> (without_duration out, rest))"
    by (rule executeCommand_connect_ms)
next
  assume "0 < T \<and> connect cfg (conn_env env) tgt m = (Resolved c, m1, fx) \<and> exec_throws env = None
        \<and> (\<forall>(t, e) \<in> set (events env).
              (\<exists>code. e = Close code) \<or> (\<exists>err. e = ExecCallback (Some err)) \<longrightarrow> T * 1000 < int t)"
  then show "fst (executeCommand cfg env tgt cmd (Some T) m) = Rejected (CommandTimeoutError T)"
    using executeCommand_timeout [of T cfg env tgt m c m1 fx cmd] by blast
next
  assume "fst (executeCommand cfg env tgt cmd topt m) = Resolved r"
  then show "connect_ms env \<le> duration r" by (rule executeCommand_duration)
qed

theorem timeout_window_starts_after_connect_witness:
  "connect store_a (conn_env env_hang) (Some ''a'') new_manager_js
     = (Resolved session_a, manager_a, [ClientConnect ''conn_1000_0'' config_a])
   \<and> exec_throws env_hang = None
   \<and> events env_hang = [(5, ExecCallback None), (400, StdoutData ''up''), (7000, Close (Some 0))]
   \<and> fst (executeCommand store_a env_hang (Some ''a'') ''sleep 7'' (Some 3) new_manager_js)
       = Rejected (CommandTimeoutError 3)
   \<and> fst (executeCommand store_a env_slow_connect (Some ''a'') ''uptime'' (Some 3) new_manager_js)
       = Resolved \<lparr>stdout = ''up'', stderr = [], exit_code = Some 0, duration = 6000\<rparr>
   \<and> connect_ms env_slow_connect \<le> 6000"
proof -
  have conn: "connect store_a (conn_env env_hang) (Some ''a'') new_manager_js
       = (Resolved session_a, manager_a, [ClientConnect ''conn_1000_0'' config_a])"
    by (simp add: env_hang_def connect_a_fresh)
  have ev: "exec_throws env_hang = None"
    "events env_hang = [(5, ExecCallback None), (400, StdoutData ''up''), (7000, Close (Some 0))]"
    by (simp_all add: env_hang_def)
  have late: "\<forall>(t, e) \<in> set (events env_hang).
      (\<exists>code. e = Close code) \<or> (\<exists>err. e = ExecCallback (Some err)) \<longrightarrow> 3 * 1000 < int t"
    by (simp add: ev)
  have hang: "fst (executeCommand store_a env_hang (Some ''a'') ''sleep 7'' (Some 3) new_manager_js)
       = Rejected (CommandTimeoutError 3)"
    using conn ev(1) late
      timeout_window_starts_after_connect [where cfg = store_a and env = env_hang
        and tgt = "Some ''a''" and cmd = "''sleep 7''" and m = new_manager_js and T = 3
        and c = session_a and ?m1.0 = manager_a and fx = "[ClientConnect ''conn_1000_0'' config_a]"]
    by simp
  have res: "fst (executeCommand store_a env_slow_connect (Some ''a'') ''uptime'' (Some 3) new_manager_js)
       = Resolved \<lparr>stdout = ''up'', stderr = [], exit_code = Some 0, duration = 6000\<rparr>"
    by (simp add: run_slow)
  have dur: "connect_ms env_slow_connect \<le> 6000"
    using res
      timeout_window_starts_after_connect [where cfg = store_a and env = env_slow_connect
        and tgt = "Some ''a''" and cmd = "''uptime''" and m = new_manager_js and topt = "Some 3"
        and r = "\<lparr>stdout = ''up'', stderr = [], exit_code = Some 0, duration = 6000\<rparr>"]
    by simp
  from conn ev hang res dur show ?thesis by blast
qed

text \<open>
  Against C3 as stated: connecting takes 5 s, the command closes 1 s after it was issued,
  the timeout is 3 s. Connect time plus exec time is 6 s, more than the timeout, and the
  call returns the result.
\<close>

theorem timeout_origin_counterexample:
  "connect_ms env_slow_connect = 5000
   \<and> events env_slow_connect = [(0, ExecCallback None), (400, StdoutData ''up''), (1000, Close (Some 0))]
   \<and> (3 :: nat) * 1000 < 5000 + 1000
   \<and> fst (executeCommand store_a env_slow_connect (Some ''a'') ''uptime'' (Some 3) new_manager_js)
       = Resolved \<lparr>stdout = ''up'', stderr = [], exit_code = Some 0, duration = 6000\<rparr>
   \<and> fst (executeCommand store_a env_slow_connect (Some ''a'') ''uptime'' (Some 3) new_manager_js)
       \<noteq> Rejected (CommandTimeoutError 3)"
  by (simp add: run_slow) (simp add: env_slow_connect_def)

text \<open>
  C4 (empty target or command), as the code has it. \<open>executeCommand\<close> checks neither
  argument. An empty target is handled as an absent one: the call is the call on the
  configured default server, and it fails with \<open>NoTargetError\<close>, executing nothing, only
  when no default is configured. An empty command is passed to \<open>client.exec\<close> of the
  session obtained, like any other.
\<close>

theorem empty_target_uses_default:
  "executeCommand cfg env (Some []) cmd topt m = executeCommand cfg env (getDefaultServer cfg) cmd topt m
   \<and> (\<not> truthy (getDefaultServer cfg)
      \<longrightarrow> executeCommand cfg env (Some []) cmd topt m = (Rejected NoTargetError, m, []))
   \<and> (connect cfg (conn_env env) tgt m = (Resolved c, m1, fx)
      \<longrightarrow> ClientExec (id' c) [] \<in> set (snd (snd (executeCommand cfg env tgt [] topt m))))"
proof (intro conjI impI)
  show "executeCommand cfg env (Some []) cmd topt m
        = executeCommand cfg env (getDefaultServer cfg) cmd topt m"
    by (simp add: executeCommand_def connect_empty_target)
next
  assume "\<not> truthy (getDefaultServer cfg)"
  then have "connect cfg (conn_env env) (Some []) m = (Rejected NoTargetError, m, [])"
    by (simp add: connect_def truthy_value_def truthy_def)
  then show "executeCommand cfg env (Some []) cmd topt m = (Rejected NoTargetError, m, [])"
    by (simp add: executeCommand_def Let_def)
next
  assume "connect cfg (conn_env env) tgt m = (Resolved c, m1, fx)"
  then show "ClientExec (id' c) [] \<in> set (snd (snd (executeCommand cfg env tgt [] topt m)))"
    by (rule executeCommand_exec_issued)
qed

theorem empty_target_uses_default_witness:
  "\<not> truthy (getDefaultServer empty_store)
   \<and> executeCommand empty_store env_quick (Some []) ''uptime'' (Some 3) new_manager_js
       = (Rejected NoTargetError, new_manager_js, [])
   \<and> connect store_a (conn_env env_quick) (Some ''a'') new_manager_js
       = (Resolved session_a, manager_a, [ClientConnect ''conn_1000_0'' config_a])
   \<and> ClientExec ''conn_1000_0'' []
       \<in> set (snd (snd (executeCommand store_a env_quick (Some ''a'') [] (Some 3) new_manager_js)))"
proof -
  have h: "\<not> truthy (getDefaultServer empty_store)"
    by (simp add: truthy_def getDefaultServer_def empty_store_def)
  have none: "executeCommand empty_store env_quick (Some []) ''uptime'' (Some 3) new_manager_js
       = (Rejected NoTargetError, new_manager_js, [])"
    using h
      empty_target_uses_default [where cfg = empty_store and env = env_quick and cmd = "''uptime''"
        and topt = "Some 3" and m = new_manager_js]
    by blast
  have conn: "connect store_a (conn_env env_quick) (Some ''a'') new_manager_js
       = (Resolved session_a, manager_a, [ClientConnect ''conn_1000_0'' config_a])"
    by (simp add: env_quick_def connect_a_fresh)
  have "ClientExec (id' session_a) []
       \<in> set (snd (snd (executeCommand store_a env_quick (Some ''a'') [] (Some 3) new_manager_js)))"
    using conn
      empty_target_uses_default [where cfg = store_a and env = env_quick and tgt = "Some ''a''"
        and topt = "Some 3" and m = new_manager_js and c = session_a and ?m1.0 = manager_a
        and fx = "[ClientConnect ''conn_1000_0'' config_a]"]
    by blast
  then have issued: "ClientExec ''conn_1000_0'' []
       \<in> set (snd (snd (executeCommand store_a env_quick (Some ''a'') [] (Some 3) new_manager_js)))"
    by (simp add: session_a_def)
  from h none conn issued show ?thesis by blast
qed

text \<open>
  Against C4 as stated: with server "a" the default, a call with the empty target runs
  the command on "a", and a call with the empty command issues the exec request; both
  return a result.
\<close>

theorem empty_arguments_counterexample:
  "executeCommand store_a env_quick (Some []) ''uptime'' (Some 3) new_manager_js
     = (Resolved \<lparr>stdout = [], stderr = [], exit_code = Some 0, duration = 60\<rparr>, manager_a,
        [ClientConnect ''conn_1000_0'' config_a, SetTimeout 3000,
         ClientExec ''conn_1000_0'' ''uptime'', ClearTimeout])
   \<and> executeCommand store_a env_quick (Some ''a'') [] (Some 3) new_manager_js
     = (Resolved \<lparr>stdout = [], stderr = [], exit_code = Some 0, duration = 60\<rparr>, manager_a,
        [ClientConnect ''conn_1000_0'' config_a, SetTimeout 3000,
         ClientExec ''conn_1000_0'' [], ClearTimeout])"
  by (simp add: run_empty_target run_empty_command)

text \<open>
  C6 (disconnect), on the manager as ssh-connection.ts constructs it. The field
  \<open>connections\<close> is the array literal \<open>[]\<close>, which has no \<open>get\<close>, \<open>delete\<close> or \<open>size\<close>:
  \<open>disconnect(id)\<close> with any id throws a \<open>TypeError\<close> instead of returning
  \<open>{disconnected: 0}\<close>, and after \<open>disconnect()\<close> the \<open>total\<close> of \<open>getStatus()\<close> is
  \<open>undefined\<close> instead of 0. On a \<open>Map\<close>, as the compiled module constructs it, the
  claim holds for every id that is not the empty string, which \<open>if (connection_id)\<close> takes
  for no id: lemma \<open>disconnect_map_registry\<close>.
\<close>

theorem disconnect_on_array_registry:
  "disconnect (Some ''conn_1000_0'') new_manager_ts
     = (Inl (TypeError ''this.connections.get''), new_manager_ts, [])
   \<and> disconnect None new_manager_ts = (Inr 0, new_manager_ts, [])
   \<and> total (getStatus (fst (snd (disconnect None new_manager_ts)))) = None"
  by (simp add: disconnect_def truthy_value_def truthy_def new_manager_ts_def reg_get_def
        reg_entries_def getStatus_def reg_size_def)

text \<open>
  C7 (default pointer), on a name that a plain object inherits. \<open>setDefaultServer\<close> tests
  \<open>!this.config.servers[name]\<close>; for "toString" the read finds the inherited function, so
  on the empty store the call does not throw \<open>ServerNotFoundError\<close>: it returns \<open>true\<close> and
  leaves the pointer on a name under which no credential is stored. For names that are
  not members of \<open>Object.prototype\<close> the claim holds: lemma \<open>default_pointer_ordinary_names\<close>.
\<close>

theorem default_pointer_inherited_name:
  "stored ''toString'' empty_store = None
   \<and> getServer ''toString'' empty_store = Some (Inherited ''toString'')
   \<and> setDefaultServer ''toString'' None empty_store
       = (Inr True, \<lparr>default_server = Some ''toString'', servers = []\<rparr>)
   \<and> \<not> default_valid (run_ops [(SetDefault ''toString'', None)] empty_store)"
  by (simp add: store_eval)

text \<open>
  C8 (duplicate add). For every store and every name present in it, \<open>addServer\<close> with
  that name fails with \<open>DuplicateServerError\<close> and the store is left exactly as it was:
  every entry with all its attributes, and the default pointer.
\<close>

theorem duplicate_add_rejected:
  "getServer (arg_name config) s \<noteq> None
   \<Longrightarrow> addServer config w s = (Inl (DuplicateServerError (arg_name config)), s)"
  by (simp add: addServer_def)

theorem duplicate_add_rejected_witness:
  "getServer (arg_name (cred_b\<lparr>arg_name := ''a''\<rparr>)) store_a \<noteq> None
   \<and> addServer (cred_b\<lparr>arg_name := ''a''\<rparr>) None store_a = (Inl (DuplicateServerError ''a''), store_a)
   \<and> getServer ''a'' store_a = Some (Credential (serverConfig cred_a))"
proof -
  have h: "getServer (arg_name (cred_b\<lparr>arg_name := ''a''\<rparr>)) store_a \<noteq> None"
    by (simp add: store_a_lookup)
  from duplicate_add_rejected [OF h, of None] h show ?thesis
    by (simp add: store_a_lookup)
qed

text \<open>
  C9 (persistence failures are surfaced). When the write of the document throws,
  \<open>addServer\<close>, \<open>deleteServer\<close> and \<open>setDefaultServer\<close> never return a value; and when the
  call gets as far as the write (the name is new for \<open>addServer\<close>, present for the other
  two), what it throws is the error of the write.
\<close>

theorem persistence_failure_surfaced:
  "(\<forall>v. fst (addServer config (Some e) s) \<noteq> Inr v)
   \<and> (\<forall>v. fst (deleteServer n (Some e) s) \<noteq> Inr v)
   \<and> (\<forall>v. fst (setDefaultServer n (Some e) s) \<noteq> Inr v)
   \<and> (getServer (arg_name config) s = None
        \<longrightarrow> fst (addServer config (Some e) s) = Inl (PersistenceError e))
   \<and> (getServer n s \<noteq> None \<longrightarrow> fst (deleteServer n (Some e) s) = Inl (PersistenceError e))
   \<and> (getServer n s \<noteq> None \<longrightarrow> fst (setDefaultServer n (Some e) s) = Inl (PersistenceError e))"
  by (simp add: addServer_def deleteServer_def setDefaultServer_def saveConfig_def Let_def)

theorem persistence_failure_surfaced_witness:
  "getServer (arg_name cred_b) store_a = None
   \<and> fst (addServer cred_b (Some ''ENOSPC'') store_a) = Inl (PersistenceError ''ENOSPC'')
   \<and> getServer ''a'' store_a \<noteq> None
   \<and> fst (deleteServer ''a'' (Some ''ENOSPC'') store_a) = Inl (PersistenceError ''ENOSPC'')
   \<and> fst (setDefaultServer ''a'' (Some ''ENOSPC'') store_a) = Inl (PersistenceError ''ENOSPC'')"
proof -
  have h1: "getServer (arg_name cred_b) store_a = None"
    by (simp add: cred_b_def store_a_lookup)
  have h2: "getServer ''a'' store_a \<noteq> None"
    by (simp add: store_a_lookup)
  from h1 h2
    persistence_failure_surfaced [where config = cred_b and s = store_a and e = "''ENOSPC''"
      and n = "''a''"]
  show ?thesis by blast
qed

text \<open>
  C10 (no rollback). The change in memory is made before the write, and a failed write
  does not undo it. After an \<open>addServer\<close> whose write failed, the call has thrown the
  write's error and \<open>getServer\<close> returns the new entry. After a \<open>deleteServer\<close> whose write
  failed, the call has thrown, no credential is stored under the name any more, and the
  default pointer is cleared if it named it. After a \<open>setDefaultServer\<close> whose write
  failed, the call has thrown and the pointer is already on the new name.
\<close>

theorem failed_save_not_rolled_back:
  "(getServer (arg_name config) s = None
      \<longrightarrow> fst (addServer config (Some e) s) = Inl (PersistenceError e)
          \<and> getServer (arg_name config) (snd (addServer config (Some e) s))
              = Some (Credential (serverConfig config)))
   \<and> (getServer n s \<noteq> None
      \<longrightarrow> fst (deleteServer n (Some e) s) = Inl (PersistenceError e)
          \<and> stored n (snd (deleteServer n (Some e) s)) = None
          \<and> (n \<notin> set object_prototype \<longrightarrow> getServer n (snd (deleteServer n (Some e) s)) = None)
          \<and> (default_server s = Some n \<longrightarrow> default_server (snd (deleteServer n (Some e) s)) = None))
   \<and> (getServer n s \<noteq> None
      \<longrightarrow> fst (setDefaultServer n (Some e) s) = Inl (PersistenceError e)
          \<and> default_server (snd (setDefaultServer n (Some e) s)) = Some n)"
  by (simp add: addServer_def deleteServer_def setDefaultServer_def saveConfig_def Let_def
        getServer_update getServer_delete stored_delete)

theorem failed_save_not_rolled_back_witness:
  "getServer ''b'' store_a = None
   \<and> fst (addServer cred_b (Some ''ENOSPC'') store_a) = Inl (PersistenceError ''ENOSPC'')
   \<and> getServer ''b'' (snd (addServer cred_b (Some ''ENOSPC'') store_a))
       = Some (Credential (serverConfig cred_b))
   \<and> getServer ''a'' store_a = Some (Credential (serverConfig cred_a))
   \<and> default_server store_a = Some ''a''
   \<and> fst (deleteServer ''a'' (Some ''ENOSPC'') store_a) = Inl (PersistenceError ''ENOSPC'')
   \<and> stored ''a'' (snd (deleteServer ''a'' (Some ''ENOSPC'') store_a)) = None
   \<and> getServer ''a'' (snd (deleteServer ''a'' (Some ''ENOSPC'') store_a)) = None
   \<and> default_server (snd (deleteServer ''a'' (Some ''ENOSPC'') store_a)) = None
   \<and> getServer ''b'' store_ab \<noteq> None
   \<and> default_server store_ab = Some ''a''
   \<and> fst (setDefaultServer ''b'' (Some ''ENOSPC'') store_ab) = Inl (PersistenceError ''ENOSPC'')
   \<and> default_server (snd (setDefaultServer ''b'' (Some ''ENOSPC'') store_ab)) = Some ''b''"
proof -
  have n: "arg_name cred_b = ''b''" by (simp add: cred_b_def)
  have h1: "getServer (arg_name cred_b) store_a = None"
    by (simp add: n store_a_lookup)
  have h2: "getServer ''a'' store_a \<noteq> None" "default_server store_a = Some ''a''"
    "''a'' \<notin> set object_prototype"
    by (simp_all add: store_a_lookup object_prototype_def) (simp add: store_a_eval)
  have ab: "getServer ''b'' store_ab \<noteq> None" "default_server store_ab = Some ''a''"
    by (simp_all add: store_ab_def store_a_eval store_eval cred_b_def)
  from h1 h2
    failed_save_not_rolled_back [where config = cred_b and s = store_a and e = "''ENOSPC''"
      and n = "''a''"]
  have first: "fst (addServer cred_b (Some ''ENOSPC'') store_a) = Inl (PersistenceError ''ENOSPC'')
      \<and> getServer (arg_name cred_b) (snd (addServer cred_b (Some ''ENOSPC'') store_a))
          = Some (Credential (serverConfig cred_b))
      \<and> fst (deleteServer ''a'' (Some ''ENOSPC'') store_a) = Inl (PersistenceError ''ENOSPC'')
      \<and> stored ''a'' (snd (deleteServer ''a'' (Some ''ENOSPC'') store_a)) = None
      \<and> getServer ''a'' (snd (deleteServer ''a'' (Some ''ENOSPC'') store_a)) = None
      \<and> default_server (snd (deleteServer ''a'' (Some ''ENOSPC'') store_a)) = None"
    by blast
  from ab
    failed_save_not_rolled_back [where config = cred_b and s = store_ab and e = "''ENOSPC''"
      and n = "''b''"]
  have second: "fst (setDefaultServer ''b'' (Some ''ENOSPC'') store_ab) = Inl (PersistenceError ''ENOSPC'')
      \<and> default_server (snd (setDefaultServer ''b'' (Some ''ENOSPC'') store_ab)) = Some ''b''"
    by blast
  from first second ab h2 show ?thesis by (simp add: n store_a_lookup)
qed

end
